theory Spec2Isabelle
  imports Complex_Main "HOL-Library.Sublist" "HOL-Library.AList"
begin

section \<open>Numbers and strings of the source language\<close>

text \<open>
  Python floats are modelled as exact reals: every sum, product and quotient is the
  mathematical one. Strings are lists of code points below 256, \<open>len\<close> is \<open>length\<close>,
  and \<open>word in text\<close> is contiguous containment, \<^const>\<open>sublist\<close>.
\<close>

text \<open>\<open>round(x)\<close>: the nearest integer, a tie going to the even neighbour.\<close>

definition round_half_even :: "real \<Rightarrow> int" where
  "round_half_even y =
     (let n = \<lfloor>y\<rfloor>;
          d = y - of_int n
      in if d < 1 / 2 then n
         else if 1 / 2 < d then n + 1
         else if even n then n else n + 1)"

text \<open>\<open>round(x, ndigits)\<close>: the nearest multiple of \<open>10 ^ -ndigits\<close>.\<close>

definition py_round :: "real \<Rightarrow> nat \<Rightarrow> real" where
  "py_round x ndigits = of_int (round_half_even (x * 10 ^ ndigits)) / 10 ^ ndigits"

text \<open>\<open>str.lower()\<close> on code points below 256: the ASCII capitals and the Latin-1
  capitals (all of 192..222 except the multiplication sign 215) move up by 32.\<close>

definition lower_char :: "char \<Rightarrow> char" where
  "lower_char c =
     (let n = (of_char c :: nat)
      in if (65 \<le> n \<and> n \<le> 90) \<or> (192 \<le> n \<and> n \<le> 222 \<and> n \<noteq> 215)
         then char_of (n + 32) else c)"

definition lower :: "string \<Rightarrow> string" where
  "lower s = map lower_char s"

section \<open>routellm_oai.py: complexity classification\<close>

datatype level = High | Medium | Low

record factors =
  base_score :: real
  length_factor :: real
  tech_boost :: real
  question_factor :: real

record complexity_analysis =
  score :: real
  level :: level
  factors :: factors
  keyword_matches :: "level \<Rightarrow> real"

text \<open>The table \<open>complexity_indicators\<close> of \<open>classify_complexity\<close>.\<close>

fun level_keywords :: "level \<Rightarrow> string list" where
  "level_keywords High =
     [''explain'', ''analyze'', ''compare'', ''evaluate'', ''design'',
      ''architect'', ''optimize'', ''debug'', ''refactor'', ''implement'',
      ''develop'', ''build'', ''create complex'', ''algorithm'', ''system'']"
| "level_keywords Medium =
     [''how'', ''why'', ''describe'', ''list'', ''summarize'', ''create'',
      ''generate'', ''write'', ''plan'', ''outline'', ''process'']"
| "level_keywords Low =
     [''what'', ''when'', ''where'', ''who'', ''define'', ''name'',
      ''count'', ''find'', ''show'', ''get'', ''is'', ''are'']"

fun weight :: "level \<Rightarrow> real" where
  "weight High = 0.8"
| "weight Medium = 0.5"
| "weight Low = 0.3"

definition technical_terms :: "string list" where
  "technical_terms =
     [''API'', ''database'', ''algorithm'', ''architecture'', ''framework'',
      ''optimization'', ''performance'', ''scalability'', ''microservices'']"

text \<open>\<open>sum(1 for word in words if word in text)\<close>\<close>

definition count_matches :: "string list \<Rightarrow> string \<Rightarrow> nat" where
  "count_matches ws text = length (filter (\<lambda>word. sublist word text) ws)"

text \<open>
  The local variables of \<open>classify_complexity\<close>, each as a function of the query:
  the dictionary \<open>scores\<close>, the pair \<open>(base_score, complexity_level)\<close> chosen by the
  \<open>if\<close>/\<open>elif\<close>/\<open>else\<close>, the three additive factors before rounding, and
  \<open>final_complexity\<close>.
\<close>

definition scores :: "string \<Rightarrow> level \<Rightarrow> real" where
  "scores q lv = real (count_matches (level_keywords lv) (lower q)) * weight lv"

definition base_complexity :: "string \<Rightarrow> real \<times> level" where
  "base_complexity q =
     (if scores q High > 0 then (0.8, High)
      else if scores q Medium > 0 then (0.5, Medium)
      else (0.3, Low))"

definition raw_length_factor :: "string \<Rightarrow> real" where
  "raw_length_factor q = min (real (length q) / 300) 0.2"

definition raw_tech_boost :: "string \<Rightarrow> real" where
  "raw_tech_boost q =
     min (real (count_matches (map lower technical_terms) (lower q)) * 0.1) 0.2"

definition raw_question_factor :: "string \<Rightarrow> real" where
  "raw_question_factor q = min (real (count_list q (CHR ''?'')) * 0.05) 0.1"

definition final_complexity :: "string \<Rightarrow> real" where
  "final_complexity q =
     min (fst (base_complexity q) + raw_length_factor q + raw_tech_boost q
            + raw_question_factor q) 1.0"

definition classify_complexity :: "string \<Rightarrow> complexity_analysis" where
  "classify_complexity q =
     \<lparr>score = py_round (final_complexity q) 3,
      level = snd (base_complexity q),
      factors = \<lparr>base_score = fst (base_complexity q),
                 length_factor = py_round (raw_length_factor q) 3,
                 tech_boost = py_round (raw_tech_boost q) 3,
                 question_factor = py_round (raw_question_factor q) 3\<rparr>,
      keyword_matches = scores q\<rparr>"

section \<open>routellm_oai.py: the router and its collaborators\<close>

datatype py_error =
    ValueError string
  | KeyError string
  | IndexError string
  | ZeroDivisionError string
  | APIError string

text \<open>\<open>str(e)\<close>; a \<open>KeyError\<close> prints its key quoted.\<close>

fun str :: "py_error \<Rightarrow> string" where
  "str (ValueError m) = m"
| "str (KeyError k) = [CHR 0x27] @ k @ [CHR 0x27]"
| "str (IndexError m) = m"
| "str (ZeroDivisionError m) = m"
| "str (APIError m) = m"

record price =
  price_input :: real
  price_output :: real

text \<open>The price table \<open>self.costs\<close>, per 1000 tokens: the keys \<open>"input"\<close> and
  \<open>"output"\<close> of each entry are the two fields of a \<open>price\<close>.\<close>

definition price_table :: "(string \<times> price) list" where
  "price_table =
     [(''gpt-4o'', \<lparr>price_input = 0.005, price_output = 0.015\<rparr>),
      (''gpt-4'', \<lparr>price_input = 0.03, price_output = 0.06\<rparr>),
      (''gpt-4o-mini'', \<lparr>price_input = 0.00015, price_output = 0.0006\<rparr>),
      (''gpt-4o-nano'', \<lparr>price_input = 0.000015, price_output = 0.00006\<rparr>),
      (''gpt-3.5-turbo'', \<lparr>price_input = 0.0005, price_output = 0.0015\<rparr>)]"

text \<open>
  The instance state of \<open>DirectOpenAIRouteLLM\<close>. The field \<open>tokenizer\<close> is
  \<open>len(self.tokenizer.encode(text))\<close>: tiktoken's \<open>encode\<close> raises \<open>ValueError\<close> on text
  that holds a special token, which is \<open>Inl\<close>. The OpenAI client lives in the \<open>world\<close>
  below.
\<close>

record router =
  api_key :: string
  strong_model :: string
  weak_model :: string
  threshold :: real
  costs :: "string \<rightharpoonup> price"
  tokenizer :: "string \<Rightarrow> py_error + nat"
  total_cost :: real
  total_queries :: nat
  total_latency :: real
  model_usage :: "string \<rightharpoonup> nat"
  complexity_stats :: "level \<Rightarrow> nat"

text \<open>The process environment read by \<open>os.getenv\<close>.\<close>

record environ =
  OPENAI_API_KEY :: "string option"
  ROUTELLM_STRONG_MODEL :: "string option"
  ROUTELLM_WEAK_MODEL :: "string option"
  ROUTELLM_THRESHOLD :: "string option"

text \<open>\<open>os.getenv(name, default)\<close>\<close>

definition getenv :: "string option \<Rightarrow> string \<Rightarrow> string" where
  "getenv v dflt = (case v of None \<Rightarrow> dflt | Some x \<Rightarrow> x)"

text \<open>
  \<open>__init__\<close>. \<open>parse_float\<close> is the builtin \<open>float\<close> on strings (\<open>None\<close> where it
  raises \<open>ValueError\<close>); the default \<open>"0.7"\<close> parses to \<open>0.7\<close>. \<open>tok\<close> is the tokenizer
  obtained from tiktoken.
\<close>

definition DirectOpenAIRouteLLM_init ::
  "(string \<Rightarrow> real option) \<Rightarrow> (string \<Rightarrow> py_error + nat) \<Rightarrow> environ \<Rightarrow> string option
     \<Rightarrow> py_error + router"
where
  "DirectOpenAIRouteLLM_init parse_float tok env key_arg =
     (let key = (case key_arg of
                   None \<Rightarrow> OPENAI_API_KEY env
                 | Some k \<Rightarrow> if k \<noteq> [] then Some k else OPENAI_API_KEY env)
      in case key of
           None \<Rightarrow> Inl (ValueError ''OpenAI API key not found. Set OPENAI_API_KEY environment variable or pass api_key parameter.'')
         | Some k \<Rightarrow>
             if k = []
             then Inl (ValueError ''OpenAI API key not found. Set OPENAI_API_KEY environment variable or pass api_key parameter.'')
             else
               (let strong = getenv (ROUTELLM_STRONG_MODEL env) ''gpt-4o-mini'';
                    weak = getenv (ROUTELLM_WEAK_MODEL env) ''gpt-4o-nano''
                in case (case ROUTELLM_THRESHOLD env of
                           None \<Rightarrow> Some 0.7
                         | Some t \<Rightarrow> parse_float t) of
                     None \<Rightarrow> Inl (ValueError ''could not convert string to float'')
                   | Some th \<Rightarrow>
                       Inr \<lparr>api_key = k,
                            strong_model = strong,
                            weak_model = weak,
                            threshold = th,
                            costs = map_of price_table,
                            tokenizer = tok,
                            total_cost = 0,
                            total_queries = 0,
                            total_latency = 0,
                            model_usage = [strong \<mapsto> 0, weak \<mapsto> 0],
                            complexity_stats = (\<lambda>_. 0)\<rparr>))"

record completion_usage =
  prompt_tokens :: nat
  completion_tokens :: nat

text \<open>A chat completion: the \<open>message.content\<close> of each choice, and \<open>usage\<close> if present.\<close>

record response =
  choices :: "string option list"
  usage :: "completion_usage option"

datatype outcome = Raises string | Returns response

text \<open>
  What one call of \<open>route_and_execute\<close> meets outside the router:
  \<open>create model content max_tokens\<close> is \<open>client.chat.completions.create\<close> with the
  fixed system message and temperature, and the three readings of \<open>time.time()\<close>.
\<close>

record world =
  create :: "string \<Rightarrow> string \<Rightarrow> nat \<Rightarrow> outcome"
  start_time :: real
  end_time :: real
  stamp_time :: real

definition system_prompt :: string where
  "system_prompt = ''You are a helpful AI assistant. Provide clear, concise responses.''"

text \<open>\<open>count_tokens\<close>; it raises what the tokenizer raises.\<close>

definition count_tokens :: "router \<Rightarrow> string \<Rightarrow> py_error + nat" where
  "count_tokens s text = tokenizer s text"

record execution =
  response_content :: "string option"
  input_tokens :: nat
  output_tokens :: nat
  exec_cost :: real

text \<open>
  The body of the \<open>try\<close> block of \<open>route_and_execute\<close>: \<open>Inl\<close> is the exception that
  reaches the \<open>except\<close> clause (nothing has been written to the router by then),
  \<open>Inr\<close> the local variables and the router at the end of the block.
\<close>

definition try_block ::
  "world \<Rightarrow> router \<Rightarrow> string \<Rightarrow> nat \<Rightarrow> string \<Rightarrow> py_error + (execution \<times> router)"
where
  "try_block w s query max_tokens selected_model =
     (case create w selected_model query max_tokens of
        Raises m \<Rightarrow> Inl (APIError m)
      | Returns resp \<Rightarrow>
          (case choices resp of
             [] \<Rightarrow> Inl (IndexError ''list index out of range'')
           | content # _ \<Rightarrow>
               (case count_tokens s (query @ system_prompt) of
                  Inl e \<Rightarrow> Inl e
                | Inr in_tokens \<Rightarrow>
                    (case (case content of
                             None \<Rightarrow> Inr 0
                           | Some c \<Rightarrow> if c \<noteq> [] then count_tokens s c else Inr 0) of
                       Inl e \<Rightarrow> Inl e
                     | Inr out_tokens \<Rightarrow>
                         (case costs s selected_model of
                            None \<Rightarrow> Inl (KeyError selected_model)
                          | Some p \<Rightarrow>
                              (let cost = real in_tokens * price_input p / 1000
                                          + real out_tokens * price_output p / 1000;
                                   s1 = s\<lparr>total_cost := total_cost s + cost\<rparr>
                               in case usage resp of
                                    None \<Rightarrow>
                                      Inr (\<lparr>response_content = content,
                                            input_tokens = in_tokens,
                                            output_tokens = out_tokens,
                                            exec_cost = cost\<rparr>, s1)
                                  | Some u \<Rightarrow>
                                      (let actual_input_tokens = prompt_tokens u;
                                           actual_output_tokens = completion_tokens u;
                                           actual_cost =
                                             real actual_input_tokens * price_input p / 1000
                                             + real actual_output_tokens * price_output p / 1000;
                                           cost' = actual_cost;
                                           s2 = s1\<lparr>total_cost :=
                                                     total_cost s1 - cost' + actual_cost\<rparr>
                                       in Inr (\<lparr>response_content = content,
                                                input_tokens = actual_input_tokens,
                                                output_tokens = actual_output_tokens,
                                                exec_cost = cost'\<rparr>, s2))))))))"

text \<open>The dictionary returned by \<open>route_and_execute\<close>; \<open>tokens\<close> is flattened.\<close>

record routing_result =
  query :: string
  response :: "string option"
  complexity :: complexity_analysis
  model :: string
  tokens_input :: nat
  tokens_output :: nat
  tokens_total :: nat
  cost :: real
  latency_ms :: real
  saved :: bool
  success :: bool
  timestamp :: real

text \<open>Model selection based on complexity.\<close>

definition select_model :: "router \<Rightarrow> real \<Rightarrow> string" where
  "select_model s complexity_score =
     (if complexity_score \<ge> threshold s then strong_model s else weak_model s)"

text \<open>
  The three tracking updates before the \<open>try\<close>. Reading \<open>model_usage\<close> at a key it
  does not have raises \<open>KeyError\<close>, after \<open>total_queries\<close> has been incremented; the
  exception leaves the method and is returned with the router as it stands.
\<close>

definition update_tracking :: "router \<Rightarrow> string \<Rightarrow> level \<Rightarrow> py_error \<times> router + router" where
  "update_tracking s selected_model lv =
     (let s1 = s\<lparr>total_queries := total_queries s + 1\<rparr>
      in case model_usage s1 selected_model of
           None \<Rightarrow> Inl (KeyError selected_model, s1)
         | Some c \<Rightarrow>
             Inr (s1\<lparr>model_usage := (model_usage s1)(selected_model \<mapsto> c + 1),
                      complexity_stats :=
                        (complexity_stats s1)(lv := complexity_stats s1 lv + 1)\<rparr>))"

text \<open>
  The \<open>except Exception as e\<close> clause. Its call of \<open>count_tokens\<close> is under no
  \<open>try\<close>: what the tokenizer raises there leaves the method (\<open>Inl\<close>).
\<close>

definition except_block :: "router \<Rightarrow> string \<Rightarrow> py_error \<Rightarrow> py_error + execution" where
  "except_block s q e =
     (case count_tokens s q of
        Inl e' \<Rightarrow> Inl e'
      | Inr n \<Rightarrow>
          Inr \<lparr>response_content = Some (''Error: '' @ str e),
               input_tokens = n,
               output_tokens = 0,
               exec_cost = 0\<rparr>)"

text \<open>
  \<open>route_and_execute\<close>. \<open>Inl\<close> is an exception that leaves the method, \<open>Inr\<close> the
  returned dictionary; both come with the router after the call. An exception of the
  handler leaves the router as the tracking updates made it.
\<close>

definition route_and_execute ::
  "world \<Rightarrow> router \<Rightarrow> string \<Rightarrow> nat \<Rightarrow> py_error \<times> router + routing_result \<times> router"
where
  "route_and_execute w s q max_tokens =
     (let complexity_analysis = classify_complexity q;
          complexity_score = score complexity_analysis;
          selected_model = select_model s complexity_score
      in case update_tracking s selected_model (level complexity_analysis) of
           Inl err \<Rightarrow> Inl err
         | Inr s1 \<Rightarrow>
             (case (case try_block w s1 q max_tokens selected_model of
                      Inr (ex, s') \<Rightarrow> Inr (ex, True, s')
                    | Inl e \<Rightarrow>
                        (case except_block s1 q e of
                           Inl e' \<Rightarrow> Inl e'
                         | Inr ex \<Rightarrow> Inr (ex, False, s1))) of
                Inl e' \<Rightarrow> Inl (e', s1)
              | Inr (ex, ok, s2) \<Rightarrow>
                  (let latency = (end_time w - start_time w) * 1000;
                       s3 = s2\<lparr>total_latency := total_latency s2 + latency\<rparr>
                   in Inr (\<lparr>query = q,
                            response = response_content ex,
                            complexity = complexity_analysis,
                            model = selected_model,
                            tokens_input = input_tokens ex,
                            tokens_output = output_tokens ex,
                            tokens_total = input_tokens ex + output_tokens ex,
                            cost = py_round (exec_cost ex) 6,
                            latency_ms = py_round latency 2,
                            saved = (selected_model = weak_model s),
                            success = ok,
                            timestamp = stamp_time w\<rparr>, s3))))"

text \<open>
  The router states that can arise: the one \<open>__init__\<close> builds, and every state a
  call of \<open>route_and_execute\<close> leaves behind, whatever the world did and whether the
  call returned or raised.
\<close>

inductive reachable :: "router \<Rightarrow> bool" where
  init: "DirectOpenAIRouteLLM_init parse_float tok env key_arg = Inr s \<Longrightarrow> reachable s"
| returned: "reachable s \<Longrightarrow> route_and_execute w s q max_tokens = Inr (r, s') \<Longrightarrow> reachable s'"
| raised: "reachable s \<Longrightarrow> route_and_execute w s q max_tokens = Inl (e, s') \<Longrightarrow> reachable s'"

text \<open>
  A router and two worlds to run the model on: the default configuration
  (\<open>no_float\<close> stands for \<open>float\<close>, which the default threshold never calls) with a
  tokenizer that counts characters and, as tiktoken's \<open>encode\<close> does, refuses text
  holding one of the special tokens of the encoding; a world whose completion call
  raises, and one whose call returns with usage metadata.
\<close>

definition special_tokens :: "string list" where
  "special_tokens =
     [''<|endoftext|>'', ''<|fim_prefix|>'', ''<|fim_middle|>'', ''<|fim_suffix|>'',
      ''<|endofprompt|>'']"

definition demo_tokenizer :: "string \<Rightarrow> py_error + nat" where
  "demo_tokenizer text =
     (if list_ex (\<lambda>t. sublist t text) special_tokens
      then Inl (ValueError ''Encountered text corresponding to disallowed special token'')
      else Inr (length text))"

definition no_float :: "string \<Rightarrow> real option" where
  "no_float t = None"

definition demo_env :: environ where
  "demo_env = \<lparr>OPENAI_API_KEY = Some ''sk-demo-key'',
               ROUTELLM_STRONG_MODEL = None,
               ROUTELLM_WEAK_MODEL = None,
               ROUTELLM_THRESHOLD = None\<rparr>"

definition demo_router :: router where
  "demo_router =
     \<lparr>api_key = ''sk-demo-key'',
      strong_model = ''gpt-4o-mini'',
      weak_model = ''gpt-4o-nano'',
      threshold = 0.7,
      costs = map_of price_table,
      tokenizer = demo_tokenizer,
      total_cost = 0,
      total_queries = 0,
      total_latency = 0,
      model_usage = [''gpt-4o-mini'' \<mapsto> 0, ''gpt-4o-nano'' \<mapsto> 0],
      complexity_stats = (\<lambda>_. 0)\<rparr>"

definition failing_world :: world where
  "failing_world =
     \<lparr>create = (\<lambda>m content max_tokens. Raises ''Connection error.''),
      start_time = 100, end_time = 100.25, stamp_time = 100.5\<rparr>"

definition paris_usage :: completion_usage where
  "paris_usage = \<lparr>prompt_tokens = 20, completion_tokens = 5\<rparr>"

definition paris_response :: response where
  "paris_response = \<lparr>choices = [Some ''Paris.''], usage = Some paris_usage\<rparr>"

definition answering_world :: world where
  "answering_world =
     \<lparr>create = (\<lambda>m content max_tokens. Returns paris_response),
      start_time = 100, end_time = 100.25, stamp_time = 100.5\<rparr>"

text \<open>The same configuration with \<open>ROUTELLM_STRONG_MODEL=gpt-5\<close>, a name the price
  table does not have.\<close>

definition unpriced_env :: environ where
  "unpriced_env = demo_env\<lparr>ROUTELLM_STRONG_MODEL := Some ''gpt-5''\<rparr>"

definition unpriced_router :: router where
  "unpriced_router =
     demo_router\<lparr>strong_model := ''gpt-5'',
                 model_usage := [''gpt-5'' \<mapsto> 0, ''gpt-4o-nano'' \<mapsto> 0]\<rparr>"

section \<open>utils/metrics.py: the metrics collector\<close>

text \<open>One entry of \<open>self.metrics\<close>; the prefix keeps the keys apart from the router's.\<close>

record routing_record =
  rec_timestamp :: string
  rec_query :: string
  rec_route :: string
  rec_latency_ms :: real
  rec_cost :: real
  rec_metadata :: "(string \<times> string) list"

text \<open>
  The three \<open>defaultdict\<close>s of \<open>MetricsCollector\<close> are association lists in insertion
  order; \<open>dd_get\<close> reads a key, giving the default where it is missing.
\<close>

record metrics_collector =
  metrics :: "(string \<times> routing_record list) list"
  route_costs :: "(string \<times> real) list"
  routes :: "(string \<times> nat) list"
  created :: real

definition dd_get :: "'v \<Rightarrow> (string \<times> 'v) list \<Rightarrow> string \<Rightarrow> 'v" where
  "dd_get dflt d k = (case map_of d k of None \<Rightarrow> dflt | Some v \<Rightarrow> v)"

text \<open>\<open>MetricsCollector.__init__\<close>, at clock reading \<open>now\<close>.\<close>

definition MetricsCollector_init :: "real \<Rightarrow> metrics_collector" where
  "MetricsCollector_init now = \<lparr>metrics = [], route_costs = [], routes = [], created = now\<rparr>"

text \<open>\<open>record_routing\<close>; \<open>iso_now\<close> is \<open>datetime.now().isoformat()\<close>.\<close>

definition record_routing ::
  "string \<Rightarrow> metrics_collector \<Rightarrow> string \<Rightarrow> string \<Rightarrow> real \<Rightarrow> real
     \<Rightarrow> (string \<times> string) list option \<Rightarrow> metrics_collector"
where
  "record_routing iso_now mc q route latency c metadata =
     (let entry = \<lparr>rec_timestamp = iso_now,
                    rec_query = q,
                    rec_route = route,
                    rec_latency_ms = latency,
                    rec_cost = c,
                    rec_metadata = (case metadata of None \<Rightarrow> [] | Some m \<Rightarrow> m)\<rparr>;
          m1 = AList.update ''all'' (dd_get [] (metrics mc) ''all'' @ [entry]) (metrics mc);
          m2 = AList.update route (dd_get [] m1 route @ [entry]) m1
      in mc\<lparr>metrics := m2,
             route_costs := AList.update route (dd_get 0 (route_costs mc) route + c) (route_costs mc),
             routes := AList.update route (dd_get 0 (routes mc) route + 1) (routes mc)\<rparr>)"

text \<open>\<open>xs[i]\<close> for an index that is not negative.\<close>

definition py_index :: "'a list \<Rightarrow> nat \<Rightarrow> py_error + 'a" where
  "py_index xs i = (if i < length xs then Inr (xs ! i) else Inl (IndexError ''list index out of range''))"

text \<open>\<open>statistics.mean\<close>, \<open>statistics.median\<close> and \<open>statistics.stdev\<close> on a list that
  is long enough for them.\<close>

definition mean :: "real list \<Rightarrow> real" where
  "mean xs = sum_list xs / real (length xs)"

definition median :: "real list \<Rightarrow> real" where
  "median xs =
     (let s = sort xs; n = length xs
      in if odd n then s ! (n div 2)
         else (s ! (n div 2 - 1) + s ! (n div 2)) / 2)"

definition stdev :: "real list \<Rightarrow> real" where
  "stdev xs = sqrt (sum_list (map (\<lambda>x. (x - mean xs)\<^sup>2) xs) / real (length xs - 1))"

text \<open>The square root is not computed when the model is run.\<close>

declare stdev_def [code del]

text \<open>\<open>max(d, key=d.get)\<close>: the first key whose value is greatest.\<close>

definition most_used_key :: "(string \<times> nat) list \<Rightarrow> string option" where
  "most_used_key d =
     (case d of
        [] \<Rightarrow> None
      | kv # rest \<Rightarrow> Some (fst (foldl (\<lambda>best e. if snd best < snd e then e else best) kv rest)))"

record latency_stats =
  lat_mean :: real
  lat_median :: real
  lat_stdev :: real
  lat_min :: real
  lat_max :: real
  p95 :: real
  p99 :: real

record statistics =
  stat_total_queries :: nat
  runtime_seconds :: real
  latency :: latency_stats
  costs_total :: real
  costs_by_route :: "(string \<times> real) list"
  routes_distribution :: "(string \<times> nat) list"
  routes_most_used :: "string option"
  queries_per_second :: real

datatype statistics_result = No_metrics_collected | Statistics (the_statistics: statistics)

text \<open>
  \<open>get_statistics\<close>, with the two readings \<open>t1\<close>, \<open>t2\<close> of \<open>time.time()\<close> it takes. The
  entries of the dictionary are computed in the order of the source, so an index out of
  range would be raised before the division by the elapsed time.
\<close>

definition get_statistics :: "real \<Rightarrow> real \<Rightarrow> metrics_collector \<Rightarrow> py_error + statistics_result" where
  "get_statistics t1 t2 mc =
     (let all_latencies = map rec_latency_ms (dd_get [] (metrics mc) ''all'')
      in if all_latencies = [] then Inr No_metrics_collected
         else
           (let n = length all_latencies
            in case py_index (sort all_latencies) (nat \<lfloor>real n * 0.95\<rfloor>) of
                 Inl e \<Rightarrow> Inl e
               | Inr q95 \<Rightarrow>
                   (case py_index (sort all_latencies) (nat \<lfloor>real n * 0.99\<rfloor>) of
                      Inl e \<Rightarrow> Inl e
                    | Inr q99 \<Rightarrow>
                        if t2 - created mc = 0
                        then Inl (ZeroDivisionError ''float division by zero'')
                        else Inr (Statistics
                          \<lparr>stat_total_queries = length (dd_get [] (metrics mc) ''all''),
                           runtime_seconds = t1 - created mc,
                           latency =
                             \<lparr>lat_mean = mean all_latencies,
                              lat_median = median all_latencies,
                              lat_stdev = (if n > 1 then stdev all_latencies else 0),
                              lat_min = Min (set all_latencies),
                              lat_max = Max (set all_latencies),
                              p95 = q95,
                              p99 = q99\<rparr>,
                           costs_total = sum_list (map snd (route_costs mc)),
                           costs_by_route = route_costs mc,
                           routes_distribution = routes mc,
                           routes_most_used = most_used_key (routes mc),
                           queries_per_second =
                             real (length (dd_get [] (metrics mc) ''all'')) / (t2 - created mc)\<rparr>))))"

text \<open>A collector created at time 0 that has recorded three routings.\<close>

definition demo_collector :: metrics_collector where
  "demo_collector =
     record_routing ''2025-01-01T10:00:03''
       (record_routing ''2025-01-01T10:00:02''
          (record_routing ''2025-01-01T10:00:01'' (MetricsCollector_init 0)
             ''What is Python?'' ''gpt-4o-nano'' 120 0.000001 None)
          ''Who created Linux?'' ''gpt-4o-nano'' 80 0.000001 None)
       ''Design a scalable database'' ''gpt-4o-mini'' 200 0.000006 None"

section \<open>combined_comparison_oai.py: the comparison table\<close>

text \<open>The keys of a test result that the analysis reads.\<close>

record test_result =
  res_method :: string
  res_latency_ms :: real
  res_cost :: real
  res_success :: bool
  res_model_used :: string

text \<open>A row of \<open>comparison_data\<close>: its first and last cell. The two cells between them
  are the formatted numbers; the check mark after a winner's name is left out.\<close>

record row =
  metric :: string
  winner :: string

text \<open>
  \<open>_generate_comparison_analysis\<close> up to the table it prints. Both averages divide by
  the length of their list.
\<close>

definition generate_comparison_analysis ::
  "test_result list \<Rightarrow> test_result list \<Rightarrow> py_error + row list"
where
  "generate_comparison_analysis semantic_results routellm_results =
     (if length semantic_results = 0 then Inl (ZeroDivisionError ''division by zero'')
      else if length routellm_results = 0 then Inl (ZeroDivisionError ''division by zero'')
      else
        (let sem_avg_latency = sum_list (map res_latency_ms semantic_results)
                                 / real (length semantic_results);
             route_avg_latency = sum_list (map res_latency_ms routellm_results)
                                   / real (length routellm_results);
             sem_total_cost = sum_list (map res_cost semantic_results);
             route_total_cost = sum_list (map res_cost routellm_results);
             sem_success_rate = real (length (filter res_success semantic_results))
                                  / real (length semantic_results) * 100;
             route_success_rate = real (length (filter res_success routellm_results))
                                    / real (length routellm_results) * 100
         in Inr
           [\<lparr>metric = ''Average Latency'',
              winner = (if sem_avg_latency < route_avg_latency
                        then ''Semantic Router'' else ''RouteLLM'')\<rparr>,
            \<lparr>metric = ''Total Cost'',
              winner = (if sem_total_cost < route_total_cost
                        then ''Semantic Router'' else ''RouteLLM'')\<rparr>,
            \<lparr>metric = ''Success Rate'',
              winner = (if sem_success_rate \<ge> route_success_rate
                        then ''Semantic Router'' else ''RouteLLM'')\<rparr>,
            \<lparr>metric = ''Functionality'', winner = ''RouteLLM''\<rparr>,
            \<lparr>metric = ''Setup Complexity'', winner = ''Semantic Router''\<rparr>,
            \<lparr>metric = ''Scalability'', winner = ''Semantic Router''\<rparr>,
            \<lparr>metric = ''Response Quality'', winner = ''RouteLLM''\<rparr>]))"


section \<open>Properties of rounding\<close>


lemma round_half_even_of_int: "round_half_even (of_int k) = k"
  by (simp add: round_half_even_def)

lemma round_half_even_lower: "\<lfloor>y\<rfloor> \<le> round_half_even y"
  by (simp add: round_half_even_def Let_def)

lemma round_half_even_upper: "round_half_even y \<le> \<lfloor>y\<rfloor> + 1"
  by (simp add: round_half_even_def Let_def)

lemma round_half_even_shift:
  assumes "frac y \<noteq> 1 / 2"
  shows "round_half_even (of_int k + y) = k + round_half_even y"
proof -
  have fl: "\<lfloor>of_int k + y\<rfloor> = k + \<lfloor>y\<rfloor>" by simp
  have d: "of_int k + y - of_int (k + \<lfloor>y\<rfloor>) = y - of_int \<lfloor>y\<rfloor>" by simp
  from assms have "y - of_int \<lfloor>y\<rfloor> \<noteq> 1 / 2" by (simp add: frac_def)
  then show ?thesis
    unfolding round_half_even_def Let_def fl d by auto
qed

lemma round_half_even_mono:
  assumes "x \<le> y"
  shows "round_half_even x \<le> round_half_even y"
proof (cases "\<lfloor>x\<rfloor> = \<lfloor>y\<rfloor>")
  case True
  with assms show ?thesis
    by (auto simp: round_half_even_def Let_def)
next
  case False
  with assms have "\<lfloor>x\<rfloor> < \<lfloor>y\<rfloor>"
    by (simp add: floor_mono order.strict_iff_order)
  then have "\<lfloor>x\<rfloor> + 1 \<le> \<lfloor>y\<rfloor>" by simp
  with round_half_even_upper [of x] round_half_even_lower [of y] show ?thesis
    by linarith
qed

lemma py_round_mono: "x \<le> y \<Longrightarrow> py_round x n \<le> py_round y n"
  by (simp add: py_round_def divide_right_mono round_half_even_mono)

lemma py_round_exact: "py_round (of_int k / 10 ^ n) n = of_int k / 10 ^ n"
  by (simp add: py_round_def round_half_even_of_int)

lemma py_round_zero: "py_round 0 n = 0"
  using py_round_exact [of 0 n] by simp

lemma py_round_one: "py_round 1 n = 1"
  using py_round_exact [of "10 ^ n" n] by simp

lemma frac_third: "frac (real n / 3) \<noteq> 1 / 2"
proof
  assume h: "frac (real n / 3) = 1 / 2"
  have "\<lfloor>real n / real 3\<rfloor> = int (n div 3)"
    by (rule floor_divide_of_nat_eq)
  then have "frac (real n / 3) = real n / 3 - real (n div 3)"
    by (simp add: frac_def)
  with h have "2 * real n = 6 * real (n div 3) + 3" by (simp add: field_simps)
  then have "real (2 * n) = real (6 * (n div 3) + 3)" by simp
  then have "2 * n = 6 * (n div 3) + 3" by (simp only: of_nat_eq_iff)
  then show False by presburger
qed

section \<open>Properties of the classifier\<close>

lemma count_matches_pos: "0 < count_matches ws t \<longleftrightarrow> (\<exists>w\<in>set ws. sublist w t)"
  by (auto simp: count_matches_def filter_empty_conv)

lemma scores_pos: "0 < scores q lv \<longleftrightarrow> (\<exists>w\<in>set (level_keywords lv). sublist w (lower q))"
proof -
  have "0 < weight lv" by (cases lv) simp_all
  then show ?thesis
    by (simp add: scores_def zero_less_mult_iff count_matches_pos)
qed

lemma base_complexity_cases:
  "base_complexity q = (0.8, High) \<or> base_complexity q = (0.5, Medium) \<or> base_complexity q = (0.3, Low)"
  by (simp add: base_complexity_def)

lemma base_thousandths: "\<exists>k::int. fst (base_complexity q) = of_int k / 1000 \<and> 300 \<le> k \<and> k \<le> 800"
proof -
  consider "fst (base_complexity q) = 0.8" | "fst (base_complexity q) = 0.5" | "fst (base_complexity q) = 0.3"
    using base_complexity_cases [of q] by auto
  then show ?thesis
  proof cases
    case 1 then show ?thesis by (intro exI [of _ 800]) simp
  next
    case 2 then show ?thesis by (intro exI [of _ 500]) simp
  next
    case 3 then show ?thesis by (intro exI [of _ 300]) simp
  qed
qed

lemma tech_thousandths: "\<exists>k::int. raw_tech_boost q = of_int k / 1000 \<and> 0 \<le> k \<and> k \<le> 200"
proof -
  define c where "c = count_matches (map lower technical_terms) (lower q)"
  consider "c = 0" | "c = 1" | "2 \<le> c" by linarith
  then show ?thesis
  proof cases
    case 1 then show ?thesis
      by (intro exI [of _ 0]) (simp add: raw_tech_boost_def c_def [symmetric])
  next
    case 2 then show ?thesis
      by (intro exI [of _ 100]) (simp add: raw_tech_boost_def c_def [symmetric])
  next
    case 3
    then have "2 \<le> real c" by simp
    then have "min (real c * 0.1) 0.2 = 0.2" by (simp add: min_def)
    then show ?thesis
      by (intro exI [of _ 200]) (simp add: raw_tech_boost_def c_def [symmetric])
  qed
qed

lemma question_thousandths: "\<exists>k::int. raw_question_factor q = of_int k / 1000 \<and> 0 \<le> k \<and> k \<le> 100"
proof -
  define c where "c = count_list q (CHR ''?'')"
  consider "c = 0" | "c = 1" | "2 \<le> c" by linarith
  then show ?thesis
  proof cases
    case 1 then show ?thesis
      by (intro exI [of _ 0]) (simp add: raw_question_factor_def c_def [symmetric])
  next
    case 2 then show ?thesis
      by (intro exI [of _ 50]) (simp add: raw_question_factor_def c_def [symmetric])
  next
    case 3
    then have "2 \<le> real c" by simp
    then have "min (real c * 0.05) 0.1 = 0.1" by (simp add: min_def)
    then show ?thesis
      by (intro exI [of _ 100]) (simp add: raw_question_factor_def c_def [symmetric])
  qed
qed

lemma length_factor_no_tie: "frac (raw_length_factor q * 1000) \<noteq> 1 / 2"
proof (cases "real (length q) / 300 \<le> 0.2")
  case True
  then have "raw_length_factor q * 1000 = real (10 * length q) / 3"
    by (simp add: raw_length_factor_def min_def)
  then show ?thesis by (simp only: frac_third not_False_eq_True)
next
  case False
  then have "raw_length_factor q * 1000 = of_int 200"
    by (simp add: raw_length_factor_def min_def)
  then show ?thesis by (simp only: frac_of_int)
qed

lemma length_factor_range: "0 \<le> raw_length_factor q" "raw_length_factor q \<le> 0.2"
  by (simp_all add: raw_length_factor_def)


lemma score_thousandths:
  fixes q
  defines "r \<equiv> round_half_even (raw_length_factor q * 1000)"
  assumes "fst (base_complexity q) = of_int kb / 1000"
      and "raw_tech_boost q = of_int kt / 1000"
      and "raw_question_factor q = of_int kq / 1000"
  shows "py_round (final_complexity q) 3 = of_int (min (kb + r + kt + kq) 1000) / 1000"
proof -
  let ?y = "raw_length_factor q * 1000"
  have "final_complexity q * 10 ^ 3 = min (of_int (kb + kt + kq) + ?y) (of_int 1000)"
    by (simp add: final_complexity_def assms min_def field_simps)
  then have "round_half_even (final_complexity q * 10 ^ 3)
               = round_half_even (min (of_int (kb + kt + kq) + ?y) (of_int 1000))"
    by simp
  also have "\<dots> = min (round_half_even (of_int (kb + kt + kq) + ?y)) (round_half_even (of_int 1000))"
    by (rule min_of_mono [symmetric]) (simp add: mono_def round_half_even_mono)
  also have "\<dots> = min (kb + kt + kq + r) 1000"
    by (simp only: round_half_even_shift [OF length_factor_no_tie] round_half_even_of_int r_def)
  finally show ?thesis
    by (simp add: py_round_def add.commute add.left_commute)
qed


lemma min_one_thousandths: "min 1 (real_of_int k / 1000) = of_int (min k 1000) / 1000"
  by (simp add: min_def)

lemma py_round_thousandths: "py_round (of_int k / 1000) 3 = of_int k / 1000"
  using py_round_exact [of k 3] by simp

text \<open>
  Claim C2. For every query, the \<open>score\<close> of the dictionary \<open>classify_complexity\<close>
  returns lies between 0 and 1 and is the smaller of 1 and the sum of the four entries of
  its \<open>factors\<close>; it is also \<open>final_complexity\<close>, the smaller of 1 and the sum of the
  four unrounded factors, rounded to three places. Every returned factor is
  non-negative; the base score is at most 0.8, the length factor at most 0.2, the
  technical-term boost at most 0.2 and the question factor at most 0.1.
\<close>

theorem classify_complexity_score:
  "let r = classify_complexity q; f = factors r
   in 0 \<le> score r \<and> score r \<le> 1
      \<and> score r = min 1 (base_score f + length_factor f + tech_boost f + question_factor f)
      \<and> score r = py_round (min 1 (fst (base_complexity q) + raw_length_factor q
                                      + raw_tech_boost q + raw_question_factor q)) 3
      \<and> 0 \<le> base_score f \<and> base_score f \<le> 0.8
      \<and> 0 \<le> length_factor f \<and> length_factor f \<le> 0.2
      \<and> 0 \<le> tech_boost f \<and> tech_boost f \<le> 0.2
      \<and> 0 \<le> question_factor f \<and> question_factor f \<le> 0.1"
proof -
  obtain kb :: int where kb: "fst (base_complexity q) = of_int kb / 1000" "300 \<le> kb" "kb \<le> 800"
    using base_thousandths by blast
  obtain kt :: int where kt: "raw_tech_boost q = of_int kt / 1000" "0 \<le> kt" "kt \<le> 200"
    using tech_thousandths by blast
  obtain kq :: int where kq: "raw_question_factor q = of_int kq / 1000" "0 \<le> kq" "kq \<le> 100"
    using question_thousandths by blast
  define r where "r = round_half_even (raw_length_factor q * 1000)"
  have sc: "score (classify_complexity q) = of_int (min (kb + r + kt + kq) 1000) / 1000"
    using score_thousandths [OF kb(1) kt(1) kq(1)] by (simp add: classify_complexity_def r_def)
  have lf: "length_factor (factors (classify_complexity q)) = of_int r / 1000"
    by (simp add: classify_complexity_def py_round_def r_def)
  have tb: "tech_boost (factors (classify_complexity q)) = of_int kt / 1000"
    by (simp add: classify_complexity_def kt(1) py_round_thousandths)
  have qf: "question_factor (factors (classify_complexity q)) = of_int kq / 1000"
    by (simp add: classify_complexity_def kq(1) py_round_thousandths)
  have bs: "base_score (factors (classify_complexity q)) = of_int kb / 1000"
    by (simp add: classify_complexity_def kb(1))
  have "round_half_even (of_int 0) \<le> r" "r \<le> round_half_even (of_int 200)"
    unfolding r_def using length_factor_range [of q]
    by (auto intro!: round_half_even_mono)
  then have r: "0 \<le> r" "r \<le> 200"
    by (simp_all only: round_half_even_of_int)
  have sum: "base_score (factors (classify_complexity q)) + length_factor (factors (classify_complexity q))
             + tech_boost (factors (classify_complexity q)) + question_factor (factors (classify_complexity q))
             = of_int (kb + r + kt + kq) / 1000"
    by (simp add: bs lf tb qf add_divide_distrib)
  have eq1: "score (classify_complexity q)
             = min 1 (base_score (factors (classify_complexity q)) + length_factor (factors (classify_complexity q))
                      + tech_boost (factors (classify_complexity q)) + question_factor (factors (classify_complexity q)))"
    by (simp only: sum sc min_one_thousandths)
  have eq2: "score (classify_complexity q)
             = py_round (min 1 (fst (base_complexity q) + raw_length_factor q
                                + raw_tech_boost q + raw_question_factor q)) 3"
    by (simp add: classify_complexity_def final_complexity_def min.commute)
  have lo: "0 \<le> score (classify_complexity q)"
    unfolding sc using kb kt kq r by simp
  have hi: "score (classify_complexity q) \<le> 1"
    unfolding sc by simp
  show ?thesis
    unfolding Let_def
    using lo hi eq1 eq2 kb kt kq r by (simp only: bs lf tb qf) simp
qed

theorem classify_complexity_score_witness:
  "(let r = classify_complexity ''Explain the API?''; f = factors r
    in 0 \<le> score r \<and> score r \<le> 1
       \<and> score r = min 1 (base_score f + length_factor f + tech_boost f + question_factor f)
       \<and> score r = py_round (min 1 (fst (base_complexity ''Explain the API?'')
                                       + raw_length_factor ''Explain the API?''
                                       + raw_tech_boost ''Explain the API?''
                                       + raw_question_factor ''Explain the API?'')) 3
       \<and> 0 \<le> base_score f \<and> base_score f \<le> 0.8
       \<and> 0 \<le> length_factor f \<and> length_factor f \<le> 0.2
       \<and> 0 \<le> tech_boost f \<and> tech_boost f \<le> 0.2
       \<and> 0 \<le> question_factor f \<and> question_factor f \<le> 0.1)
   \<and> score (classify_complexity ''Explain the API?'') = 1"
proof -
  have "score (classify_complexity ''Explain the API?'') = 1"
    by code_simp
  with classify_complexity_score [of "''Explain the API?''"] show ?thesis
    by blast
qed



lemma level_classify:
  "level (classify_complexity q) =
     (if \<exists>w\<in>set (level_keywords High). sublist w (lower q) then High
      else if \<exists>w\<in>set (level_keywords Medium). sublist w (lower q) then Medium
      else Low)"
  by (simp add: classify_complexity_def base_complexity_def scores_pos)

lemma base_score_classify:
  "base_score (factors (classify_complexity q)) =
     (if \<exists>w\<in>set (level_keywords High). sublist w (lower q) then 0.8
      else if \<exists>w\<in>set (level_keywords Medium). sublist w (lower q) then 0.5
      else 0.3)"
  by (simp add: classify_complexity_def base_complexity_def scores_pos)

lemma how_in_show: "sublist ''how'' ''show''"
  by code_simp

text \<open>
  Claim C9. Keywords are matched as substrings of the lower-cased query, not as words:
  whenever the lower-cased query contains \<open>show\<close> and no high-tier keyword, it contains
  the medium-tier keyword \<open>how\<close>, and the returned level is medium with base score 0.5.
\<close>

theorem show_is_medium:
  assumes "sublist ''show'' (lower q)"
      and "\<not> (\<exists>w\<in>set (level_keywords High). sublist w (lower q))"
  shows "sublist ''how'' (lower q)
         \<and> level (classify_complexity q) = Medium
         \<and> base_score (factors (classify_complexity q)) = 0.5"
proof -
  from how_in_show assms(1) have how: "sublist ''how'' (lower q)"
    by (rule sublist_order.order_trans)
  have "''how'' \<in> set (level_keywords Medium)" by simp
  with how have "\<exists>w\<in>set (level_keywords Medium). sublist w (lower q)" by blast
  with assms(2) how show ?thesis
    by (simp only: level_classify base_score_classify) simp
qed

theorem show_is_medium_witness:
  "sublist ''show'' (lower ''Show me'')
   \<and> \<not> (\<exists>w\<in>set (level_keywords High). sublist w (lower ''Show me''))
   \<and> sublist ''how'' (lower ''Show me'')
   \<and> level (classify_complexity ''Show me'') = Medium
   \<and> base_score (factors (classify_complexity ''Show me'')) = 0.5"
proof -
  have h1: "sublist ''show'' (lower ''Show me'')" by code_simp
  have h2: "\<not> (\<exists>w\<in>set (level_keywords High). sublist w (lower ''Show me''))" by code_simp
  from show_is_medium [OF h1 h2] h1 h2 show ?thesis by blast
qed

lemma count_list_subseq: "subseq xs ys \<Longrightarrow> count_list xs c \<le> count_list ys c"
  by (induction rule: list_emb.induct) auto

lemma fst_base_le: "fst (base_complexity q) \<le> 0.8"
  using base_complexity_cases [of q] by auto

lemma fst_base_high:
  "\<exists>w\<in>set (level_keywords High). sublist w (lower q) \<Longrightarrow> fst (base_complexity q) = 0.8"
  by (simp add: base_complexity_def scores_pos)

lemma score_mono_features:
  assumes "fst (base_complexity q') \<le> fst (base_complexity q)"
      and "length q' \<le> length q"
      and "count_matches (map lower technical_terms) (lower q')
             \<le> count_matches (map lower technical_terms) (lower q)"
      and "count_list q' (CHR ''?'') \<le> count_list q (CHR ''?'')"
  shows "score (classify_complexity q') \<le> score (classify_complexity q)"
proof -
  have l: "raw_length_factor q' \<le> raw_length_factor q"
    unfolding raw_length_factor_def using assms(2) by (intro min.mono) (simp_all add: divide_right_mono)
  have t: "raw_tech_boost q' \<le> raw_tech_boost q"
    unfolding raw_tech_boost_def using assms(3) by (intro min.mono) simp_all
  have u: "raw_question_factor q' \<le> raw_question_factor q"
    unfolding raw_question_factor_def using assms(4) by (intro min.mono) simp_all
  from assms(1) l t u have "final_complexity q' \<le> final_complexity q"
    unfolding final_complexity_def by (intro min.mono add_mono) simp_all
  then show ?thesis
    by (simp add: classify_complexity_def py_round_mono)
qed

text \<open>
  Claim C7. Let \<open>q\<close> be a query in which a high-tier keyword is matched, and \<open>q'\<close> the
  same query with characters removed (its keywords, for one). If both match the same
  technical terms, the score of \<open>q\<close> is at least the score of \<open>q'\<close>. Removing characters
  cannot lengthen the query nor add a question mark; the technical terms are a premise
  because a removal can join two fragments into a term.
\<close>

theorem high_keyword_monotone:
  assumes "subseq q' q"
      and "\<exists>w\<in>set (level_keywords High). sublist w (lower q)"
      and "filter (\<lambda>t. sublist t (lower q')) (map lower technical_terms)
             = filter (\<lambda>t. sublist t (lower q)) (map lower technical_terms)"
  shows "score (classify_complexity q') \<le> score (classify_complexity q)"
proof (rule score_mono_features)
  show "fst (base_complexity q') \<le> fst (base_complexity q)"
    using fst_base_high [OF assms(2)] fst_base_le [of q'] by simp
  show "length q' \<le> length q"
    using assms(1) by (rule list_emb_length)
  show "count_matches (map lower technical_terms) (lower q')
          \<le> count_matches (map lower technical_terms) (lower q)"
    by (simp only: count_matches_def assms(3) order_refl)
  show "count_list q' (CHR ''?'') \<le> count_list q (CHR ''?'')"
    using assms(1) by (rule count_list_subseq)
qed

theorem high_keyword_monotone_witness:
  "subseq ''the api?'' ''explain the api?''
   \<and> (\<exists>w\<in>set (level_keywords High). sublist w (lower ''explain the api?''))
   \<and> filter (\<lambda>t. sublist t (lower ''the api?'')) (map lower technical_terms)
        = filter (\<lambda>t. sublist t (lower ''explain the api?'')) (map lower technical_terms)
   \<and> score (classify_complexity ''the api?'') \<le> score (classify_complexity ''explain the api?'')
   \<and> score (classify_complexity ''the api?'') = 0.477
   \<and> score (classify_complexity ''explain the api?'') = 1"
proof -
  have h1: "subseq ''the api?'' ''explain the api?''" by code_simp
  have h2: "\<exists>w\<in>set (level_keywords High). sublist w (lower ''explain the api?'')" by code_simp
  have h3: "filter (\<lambda>t. sublist t (lower ''the api?'')) (map lower technical_terms)
        = filter (\<lambda>t. sublist t (lower ''explain the api?'')) (map lower technical_terms)" by code_simp
  have v1: "score (classify_complexity ''the api?'') = 0.477" by code_simp
  have v2: "score (classify_complexity ''explain the api?'') = 1" by code_simp
  from high_keyword_monotone [OF h1 h2 h3] h1 h2 h3 v1 v2 show ?thesis by blast
qed

section \<open>Properties of the router\<close>

lemma init_usage:
  assumes "DirectOpenAIRouteLLM_init parse_float tok env key_arg = Inr s"
  shows "model_usage s = [strong_model s \<mapsto> 0, weak_model s \<mapsto> 0]"
    and "total_queries s = 0" and "complexity_stats s = (\<lambda>_. 0)"
    and "total_cost s = 0" and "costs s = map_of price_table"
  using assms
  by (auto simp: DirectOpenAIRouteLLM_init_def Let_def split: option.splits if_splits)

text \<open>The \<open>try\<close> block writes nothing but \<open>total_cost\<close>.\<close>

lemma try_block_router:
  assumes "try_block w s q mt m = Inr (ex, s')"
  shows "strong_model s' = strong_model s" "weak_model s' = weak_model s"
    "threshold s' = threshold s" "costs s' = costs s" "tokenizer s' = tokenizer s"
    "total_queries s' = total_queries s" "total_latency s' = total_latency s"
    "model_usage s' = model_usage s" "complexity_stats s' = complexity_stats s"
  using assms
  by (auto simp: try_block_def Let_def
           split: outcome.splits list.splits option.splits sum.splits)

lemma update_tracking_Inr:
  "model_usage s m = Some c \<Longrightarrow>
   update_tracking s m lv =
     Inr (s\<lparr>total_queries := total_queries s + 1,
            model_usage := (model_usage s)(m \<mapsto> c + 1),
            complexity_stats := (complexity_stats s)(lv := complexity_stats s lv + 1)\<rparr>)"
  by (simp add: update_tracking_def)

lemma update_tracking_Inl:
  "update_tracking s m lv = Inl (e, s') \<Longrightarrow> model_usage s m = None"
  by (auto simp: update_tracking_def Let_def split: option.splits)

lemma update_tracking_fields:
  assumes "model_usage s m = Some c"
  shows "\<exists>s1. update_tracking s m lv = Inr s1
           \<and> total_queries s1 = total_queries s + 1
           \<and> model_usage s1 = (model_usage s)(m \<mapsto> c + 1)
           \<and> complexity_stats s1 = (complexity_stats s)(lv := complexity_stats s lv + 1)
           \<and> total_cost s1 = total_cost s \<and> total_latency s1 = total_latency s
           \<and> strong_model s1 = strong_model s \<and> weak_model s1 = weak_model s
           \<and> threshold s1 = threshold s \<and> costs s1 = costs s
           \<and> tokenizer s1 = tokenizer s"
  by (simp add: update_tracking_Inr [OF assms])

lemma select_model_cases:
  "select_model s x = strong_model s \<or> select_model s x = weak_model s"
  by (simp add: select_model_def)

text \<open>The three ways a call ends once the tracking updates are made.\<close>

lemma route_and_execute_success:
  assumes "update_tracking s (select_model s (score (classify_complexity q)))
             (level (classify_complexity q)) = Inr s1"
      and "try_block w s1 q mt (select_model s (score (classify_complexity q))) = Inr (ex, s2)"
  shows "\<exists>r s'. route_and_execute w s q mt = Inr (r, s')
           \<and> model r = select_model s (score (classify_complexity q))
           \<and> complexity r = classify_complexity q
           \<and> saved r = (model r = weak_model s) \<and> query r = q
           \<and> success r = True \<and> cost r = py_round (exec_cost ex) 6
           \<and> tokens_input r = input_tokens ex \<and> tokens_output r = output_tokens ex
           \<and> response r = response_content ex
           \<and> total_cost s' = total_cost s2
           \<and> total_queries s' = total_queries s1
           \<and> model_usage s' = model_usage s1
           \<and> complexity_stats s' = complexity_stats s1
           \<and> strong_model s' = strong_model s1 \<and> weak_model s' = weak_model s1
           \<and> threshold s' = threshold s1 \<and> costs s' = costs s1
           \<and> tokenizer s' = tokenizer s1"
  using try_block_router [OF assms(2)]
  by (simp add: route_and_execute_def Let_def assms)

lemma route_and_execute_except:
  assumes "update_tracking s (select_model s (score (classify_complexity q)))
             (level (classify_complexity q)) = Inr s1"
      and "try_block w s1 q mt (select_model s (score (classify_complexity q))) = Inl e"
      and "tokenizer s1 q = Inr n"
  shows "\<exists>r s'. route_and_execute w s q mt = Inr (r, s')
           \<and> model r = select_model s (score (classify_complexity q))
           \<and> complexity r = classify_complexity q
           \<and> saved r = (model r = weak_model s) \<and> query r = q
           \<and> success r = False \<and> cost r = 0
           \<and> tokens_input r = n \<and> tokens_output r = 0 \<and> tokens_total r = n
           \<and> response r = Some (''Error: '' @ str e)
           \<and> total_cost s' = total_cost s1
           \<and> total_queries s' = total_queries s1
           \<and> model_usage s' = model_usage s1
           \<and> complexity_stats s' = complexity_stats s1
           \<and> strong_model s' = strong_model s1 \<and> weak_model s' = weak_model s1
           \<and> threshold s' = threshold s1 \<and> costs s' = costs s1
           \<and> tokenizer s' = tokenizer s1"
  by (simp add: route_and_execute_def Let_def assms except_block_def count_tokens_def
        py_round_zero)

lemma route_and_execute_handler_raises:
  assumes "update_tracking s (select_model s (score (classify_complexity q)))
             (level (classify_complexity q)) = Inr s1"
      and "try_block w s1 q mt (select_model s (score (classify_complexity q))) = Inl e"
      and "tokenizer s1 q = Inl e'"
  shows "route_and_execute w s q mt = Inl (e', s1)"
  by (simp add: route_and_execute_def Let_def assms except_block_def count_tokens_def)

text \<open>
  What a call leaves in the router, however it ends: it returns, or the handler's
  \<open>count_tokens\<close> raises what the tokenizer raises on the query.
\<close>

lemma route_and_execute_outcome:
  assumes "model_usage s (select_model s (score (classify_complexity q))) = Some c"
  shows "\<exists>s'. ((\<exists>r. route_and_execute w s q mt = Inr (r, s')
                   \<and> model r = select_model s (score (classify_complexity q))
                   \<and> complexity r = classify_complexity q
                   \<and> saved r = (model r = weak_model s))
               \<or> (\<exists>e. route_and_execute w s q mt = Inl (e, s') \<and> tokenizer s q = Inl e))
           \<and> total_queries s' = total_queries s + 1
           \<and> model_usage s' = (model_usage s)
                 (select_model s (score (classify_complexity q)) \<mapsto> c + 1)
           \<and> complexity_stats s' = (complexity_stats s)
                 (level (classify_complexity q) :=
                    complexity_stats s (level (classify_complexity q)) + 1)
           \<and> strong_model s' = strong_model s \<and> weak_model s' = weak_model s
           \<and> threshold s' = threshold s \<and> costs s' = costs s
           \<and> tokenizer s' = tokenizer s"
proof -
  let ?m = "select_model s (score (classify_complexity q))"
  from update_tracking_fields [OF assms]
  obtain s1 where ut: "update_tracking s ?m (level (classify_complexity q)) = Inr s1"
    and f: "total_queries s1 = total_queries s + 1"
      "model_usage s1 = (model_usage s)(?m \<mapsto> c + 1)"
      "complexity_stats s1 = (complexity_stats s)
         (level (classify_complexity q) := complexity_stats s (level (classify_complexity q)) + 1)"
      "strong_model s1 = strong_model s" "weak_model s1 = weak_model s"
      "threshold s1 = threshold s" "costs s1 = costs s"
    and tk: "tokenizer s1 = tokenizer s"
    by blast
  show ?thesis
  proof (cases "try_block w s1 q mt ?m")
    case (Inr p)
    obtain ex s2 where "p = (ex, s2)" by (cases p)
    with Inr have tb: "try_block w s1 q mt ?m = Inr (ex, s2)" by simp
    from route_and_execute_success [OF ut tb] f tk show ?thesis
      by auto
  next
    case (Inl e)
    show ?thesis
    proof (cases "tokenizer s1 q")
      case (Inr n)
      from route_and_execute_except [OF ut Inl Inr] f tk show ?thesis
        by auto
    next
      case inl: (Inl e')
      from route_and_execute_handler_raises [OF ut Inl inl] inl f tk show ?thesis
        by auto
    qed
  qed
qed


text \<open>The counters stay in step when the tracking updates are applied.\<close>

lemma tracked_counters:
  assumes inv: "(\<exists>a b. model_usage s (strong_model s) = Some a
                \<and> model_usage s (weak_model s) = Some b
                \<and> (strong_model s \<noteq> weak_model s \<longrightarrow> a + b = total_queries s))
         \<and> complexity_stats s High + complexity_stats s Medium + complexity_stats s Low
             = total_queries s"
      and m: "m = strong_model s \<or> m = weak_model s"
      and c: "model_usage s m = Some c"
      and tq: "total_queries s' = total_queries s + 1"
      and mu: "model_usage s' = (model_usage s)(m \<mapsto> c + 1)"
      and st: "complexity_stats s' = (complexity_stats s)(lv := complexity_stats s lv + 1)"
      and sm: "strong_model s' = strong_model s" and wm: "weak_model s' = weak_model s"
  shows "(\<exists>a b. model_usage s' (strong_model s') = Some a
                \<and> model_usage s' (weak_model s') = Some b
                \<and> (strong_model s' \<noteq> weak_model s' \<longrightarrow> a + b = total_queries s'))
         \<and> complexity_stats s' High + complexity_stats s' Medium + complexity_stats s' Low
             = total_queries s'"
proof (rule conjI)
  from inv obtain a b where ab:
    "model_usage s (strong_model s) = Some a" "model_usage s (weak_model s) = Some b"
    "strong_model s \<noteq> weak_model s \<longrightarrow> a + b = total_queries s"
    by blast
  show "\<exists>a b. model_usage s' (strong_model s') = Some a
                \<and> model_usage s' (weak_model s') = Some b
                \<and> (strong_model s' \<noteq> weak_model s' \<longrightarrow> a + b = total_queries s')"
  proof (cases "m = strong_model s")
    case True
    with c ab(1) have "c = a" by simp
    with True ab show ?thesis
      by (auto simp: mu sm wm tq)
  next
    case False
    with m have w: "m = weak_model s" by blast
    with c ab(2) have "c = b" by simp
    with False w ab show ?thesis
      by (auto simp: mu sm wm tq)
  qed
  from inv have "complexity_stats s High + complexity_stats s Medium + complexity_stats s Low
                   = total_queries s"
    by blast
  then show "complexity_stats s' High + complexity_stats s' Medium + complexity_stats s' Low
               = total_queries s'"
    by (cases lv) (simp_all add: st tq)
qed

text \<open>The invariant of the counters, on every state that can arise.\<close>

lemma reachable_counters:
  assumes "reachable s"
  shows "(\<exists>a b. model_usage s (strong_model s) = Some a
                \<and> model_usage s (weak_model s) = Some b
                \<and> (strong_model s \<noteq> weak_model s \<longrightarrow> a + b = total_queries s))
         \<and> complexity_stats s High + complexity_stats s Medium + complexity_stats s Low
             = total_queries s"
  using assms
proof (induction rule: reachable.induct)
  case (init parse_float tok env key_arg s)
  note u = init_usage [OF init.hyps]
  have "model_usage s (strong_model s) = Some 0 \<or> strong_model s = weak_model s"
    by (simp add: u(1))
  moreover have "model_usage s (weak_model s) = Some 0"
    by (simp add: u(1))
  ultimately show ?case
    by (auto simp: u(2) u(3))
next
  case (returned s w q max_tokens r s')
  let ?m = "select_model s (score (classify_complexity q))"
  note m = select_model_cases [of s "score (classify_complexity q)"]
  from returned.IH m obtain c where c: "model_usage s ?m = Some c" by metis
  from route_and_execute_outcome [OF c, of w max_tokens] returned.hyps(2)
  have "total_queries s' = total_queries s + 1"
    "model_usage s' = (model_usage s)(?m \<mapsto> c + 1)"
    "complexity_stats s' = (complexity_stats s)
       (level (classify_complexity q) := complexity_stats s (level (classify_complexity q)) + 1)"
    "strong_model s' = strong_model s" "weak_model s' = weak_model s"
    by auto
  with returned.IH m c show ?case
    by (rule tracked_counters)
next
  case (raised s w q max_tokens e s')
  let ?m = "select_model s (score (classify_complexity q))"
  note m = select_model_cases [of s "score (classify_complexity q)"]
  from raised.IH m obtain c where c: "model_usage s ?m = Some c" by metis
  from route_and_execute_outcome [OF c, of w max_tokens] raised.hyps(2)
  have "total_queries s' = total_queries s + 1"
    "model_usage s' = (model_usage s)(?m \<mapsto> c + 1)"
    "complexity_stats s' = (complexity_stats s)
       (level (classify_complexity q) := complexity_stats s (level (classify_complexity q)) + 1)"
    "strong_model s' = strong_model s" "weak_model s' = weak_model s"
    by auto
  with raised.IH m c show ?case
    by (rule tracked_counters)
qed

lemma reachable_selected_counted:
  assumes "reachable s"
  shows "\<exists>c. model_usage s (select_model s x) = Some c"
  using reachable_counters [OF assms] select_model_cases [of s x] by metis

lemma demo_router_init:
  "DirectOpenAIRouteLLM_init no_float demo_tokenizer demo_env None = Inr demo_router"
  by (simp add: DirectOpenAIRouteLLM_init_def demo_env_def demo_router_def getenv_def Let_def)

lemma demo_router_reachable: "reachable demo_router"
  using demo_router_init by (rule reachable.init)

text \<open>
  Claim C10. In every router state that can arise, if the strong and the weak model
  have different names, a call of \<open>route_and_execute\<close> ends in one of two ways,
  whatever the completion call does: it returns, or the handler's \<open>count_tokens\<close>
  raises what the tokenizer raises on the query. In the router either ending leaves,
  \<open>model_usage[strong] + model_usage[weak] = total_queries\<close> and the three complexity
  counters add up to \<open>total_queries\<close>. The call has added one to \<open>total_queries\<close>, to
  the usage of the selected model and to the counter of the query's level: the updates
  precede the \<open>try\<close>, so a failed query is counted like any other.
\<close>

theorem counters_after_call:
  assumes "reachable s" and "strong_model s \<noteq> weak_model s"
  shows "\<exists>s' a b c.
           ((\<exists>r. route_and_execute w s q mt = Inr (r, s')
                 \<and> model r = select_model s (score (classify_complexity q))
                 \<and> complexity r = classify_complexity q)
            \<or> (\<exists>e. route_and_execute w s q mt = Inl (e, s') \<and> tokenizer s q = Inl e))
           \<and> model_usage s' (strong_model s') = Some a
           \<and> model_usage s' (weak_model s') = Some b
           \<and> a + b = total_queries s'
           \<and> complexity_stats s' High + complexity_stats s' Medium + complexity_stats s' Low
               = total_queries s'
           \<and> total_queries s' = total_queries s + 1
           \<and> model_usage s (select_model s (score (classify_complexity q))) = Some c
           \<and> model_usage s' (select_model s (score (classify_complexity q))) = Some (c + 1)
           \<and> complexity_stats s' (level (classify_complexity q))
               = complexity_stats s (level (classify_complexity q)) + 1"
proof -
  let ?m = "select_model s (score (classify_complexity q))"
  let ?lv = "level (classify_complexity q)"
  from reachable_selected_counted [OF assms(1)]
  obtain c where c: "model_usage s ?m = Some c"
    by blast
  from route_and_execute_outcome [OF c, of w mt]
  obtain s' where
    out: "(\<exists>r. route_and_execute w s q mt = Inr (r, s') \<and> model r = ?m
               \<and> complexity r = classify_complexity q
               \<and> saved r = (model r = weak_model s))
          \<or> (\<exists>e. route_and_execute w s q mt = Inl (e, s') \<and> tokenizer s q = Inl e)"
    and tq: "total_queries s' = total_queries s + 1"
    and mu: "model_usage s' = (model_usage s)(?m \<mapsto> c + 1)"
    and st: "complexity_stats s' = (complexity_stats s)(?lv := complexity_stats s ?lv + 1)"
    and sm: "strong_model s' = strong_model s" and wm: "weak_model s' = weak_model s"
    by blast
  from out assms(1) have re: "reachable s'"
    by (auto intro: reachable.returned reachable.raised)
  from assms(2) sm wm have ne: "strong_model s' \<noteq> weak_model s'" by simp
  from reachable_counters [OF re] ne obtain a b where
    "model_usage s' (strong_model s') = Some a" "model_usage s' (weak_model s') = Some b"
    "a + b = total_queries s'"
    "complexity_stats s' High + complexity_stats s' Medium + complexity_stats s' Low
       = total_queries s'"
    by blast
  moreover have "model_usage s' ?m = Some (c + 1)" by (simp add: mu)
  moreover have "complexity_stats s' ?lv = complexity_stats s ?lv + 1" by (simp add: st)
  moreover from out have
    "(\<exists>r. route_and_execute w s q mt = Inr (r, s') \<and> model r = ?m
               \<and> complexity r = classify_complexity q)
          \<or> (\<exists>e. route_and_execute w s q mt = Inl (e, s') \<and> tokenizer s q = Inl e)"
    by blast
  ultimately show ?thesis using c tq by blast
qed

theorem counters_after_call_witness:
  "reachable demo_router \<and> strong_model demo_router \<noteq> weak_model demo_router
   \<and> (\<exists>s' a b c.
           ((\<exists>r. route_and_execute failing_world demo_router ''Explain <|endoftext|>'' 150 = Inr (r, s')
                 \<and> model r = select_model demo_router (score (classify_complexity ''Explain <|endoftext|>''))
                 \<and> complexity r = classify_complexity ''Explain <|endoftext|>'')
            \<or> (\<exists>e. route_and_execute failing_world demo_router ''Explain <|endoftext|>'' 150 = Inl (e, s')
                    \<and> tokenizer demo_router ''Explain <|endoftext|>'' = Inl e))
           \<and> model_usage s' (strong_model s') = Some a
           \<and> model_usage s' (weak_model s') = Some b
           \<and> a + b = total_queries s'
           \<and> complexity_stats s' High + complexity_stats s' Medium + complexity_stats s' Low
               = total_queries s'
           \<and> total_queries s' = total_queries demo_router + 1
           \<and> model_usage demo_router
                (select_model demo_router (score (classify_complexity ''Explain <|endoftext|>''))) = Some c
           \<and> model_usage s'
                (select_model demo_router (score (classify_complexity ''Explain <|endoftext|>''))) = Some (c + 1)
           \<and> complexity_stats s' (level (classify_complexity ''Explain <|endoftext|>''))
               = complexity_stats demo_router (level (classify_complexity ''Explain <|endoftext|>'')) + 1)
   \<and> isl (route_and_execute failing_world demo_router ''Explain <|endoftext|>'' 150) = True
   \<and> total_queries (snd (projl (route_and_execute failing_world demo_router ''Explain <|endoftext|>'' 150))) = 1
   \<and> model_usage (snd (projl (route_and_execute failing_world demo_router ''Explain <|endoftext|>'' 150)))
         ''gpt-4o-mini'' = Some 1
   \<and> success (fst (projr (route_and_execute failing_world demo_router ''Explain the API?'' 150))) = False
   \<and> total_queries (snd (projr (route_and_execute failing_world demo_router ''Explain the API?'' 150))) = 1
   \<and> model_usage (snd (projr (route_and_execute failing_world demo_router ''Explain the API?'' 150)))
         ''gpt-4o-mini'' = Some 1"
proof -
  have h1: "reachable demo_router" by (rule demo_router_reachable)
  have h2: "strong_model demo_router \<noteq> weak_model demo_router" by (simp add: demo_router_def)
  have v1: "isl (route_and_execute failing_world demo_router ''Explain <|endoftext|>'' 150) = True"
    by code_simp
  have v2: "total_queries (snd (projl (route_and_execute failing_world demo_router ''Explain <|endoftext|>'' 150))) = 1"
    by code_simp
  have v3: "model_usage (snd (projl (route_and_execute failing_world demo_router ''Explain <|endoftext|>'' 150)))
         ''gpt-4o-mini'' = Some 1"
    by code_simp
  have v4: "success (fst (projr (route_and_execute failing_world demo_router ''Explain the API?'' 150))) = False"
    by code_simp
  have v5: "total_queries (snd (projr (route_and_execute failing_world demo_router ''Explain the API?'' 150))) = 1"
    by code_simp
  have v6: "model_usage (snd (projr (route_and_execute failing_world demo_router ''Explain the API?'' 150)))
         ''gpt-4o-mini'' = Some 1"
    by code_simp
  from counters_after_call [OF h1 h2, of failing_world "''Explain <|endoftext|>''" 150]
    h1 h2 v1 v2 v3 v4 v5 v6
  show ?thesis by blast
qed

text \<open>
  Claim C3. In every router state that can arise, the model \<open>route_and_execute\<close>
  selects is the strong model if the score of the query's classification is at least
  the threshold and the weak model otherwise: the usage counter of that model is the
  one the call increments, and a returned result names it (with two different names:
  the strong one if and only if the score reaches the threshold). The call leaves the
  threshold and both model names as they were. It returns unless the handler's
  \<open>count_tokens\<close> raises what the tokenizer raises on the query.
\<close>

theorem selects_by_threshold:
  assumes "reachable s"
  shows "\<exists>s' c.
           ((\<exists>r. route_and_execute w s q mt = Inr (r, s')
                 \<and> complexity r = classify_complexity q
                 \<and> model r = (if score (complexity r) \<ge> threshold s
                               then strong_model s else weak_model s)
                 \<and> (strong_model s \<noteq> weak_model s \<longrightarrow>
                       (model r = strong_model s \<longleftrightarrow> score (complexity r) \<ge> threshold s))
                 \<and> saved r = (model r = weak_model s))
            \<or> (\<exists>e. route_and_execute w s q mt = Inl (e, s') \<and> tokenizer s q = Inl e))
           \<and> model_usage s (if score (classify_complexity q) \<ge> threshold s
                             then strong_model s else weak_model s) = Some c
           \<and> model_usage s' (if score (classify_complexity q) \<ge> threshold s
                              then strong_model s else weak_model s) = Some (c + 1)
           \<and> threshold s' = threshold s
           \<and> strong_model s' = strong_model s \<and> weak_model s' = weak_model s"
proof -
  let ?m = "select_model s (score (classify_complexity q))"
  have m: "?m = (if score (classify_complexity q) \<ge> threshold s
                 then strong_model s else weak_model s)"
    by (simp add: select_model_def)
  from reachable_selected_counted [OF assms]
  obtain c where c: "model_usage s ?m = Some c"
    by blast
  from route_and_execute_outcome [OF c, of w mt]
  obtain s' where
    out: "(\<exists>r. route_and_execute w s q mt = Inr (r, s') \<and> model r = ?m
               \<and> complexity r = classify_complexity q
               \<and> saved r = (model r = weak_model s))
          \<or> (\<exists>e. route_and_execute w s q mt = Inl (e, s') \<and> tokenizer s q = Inl e)"
    and mu: "model_usage s' = (model_usage s)(?m \<mapsto> c + 1)"
    and th: "threshold s' = threshold s"
    and sm: "strong_model s' = strong_model s" and wm: "weak_model s' = weak_model s"
    by blast
  from out have
    "(\<exists>r. route_and_execute w s q mt = Inr (r, s')
                 \<and> complexity r = classify_complexity q
                 \<and> model r = (if score (complexity r) \<ge> threshold s
                               then strong_model s else weak_model s)
                 \<and> (strong_model s \<noteq> weak_model s \<longrightarrow>
                       (model r = strong_model s \<longleftrightarrow> score (complexity r) \<ge> threshold s))
                 \<and> saved r = (model r = weak_model s))
            \<or> (\<exists>e. route_and_execute w s q mt = Inl (e, s') \<and> tokenizer s q = Inl e)"
    by (auto simp: select_model_def)
  moreover have "model_usage s' ?m = Some (c + 1)" by (simp add: mu)
  ultimately show ?thesis
    using c th sm wm unfolding m by blast
qed


theorem selects_by_threshold_witness:
  "reachable demo_router
   \<and> (\<exists>s' c.
           ((\<exists>r. route_and_execute failing_world demo_router ''What is the capital of France?'' 150
                    = Inr (r, s')
                 \<and> complexity r = classify_complexity ''What is the capital of France?''
                 \<and> model r = (if score (complexity r) \<ge> threshold demo_router
                               then strong_model demo_router else weak_model demo_router)
                 \<and> (strong_model demo_router \<noteq> weak_model demo_router \<longrightarrow>
                       (model r = strong_model demo_router
                          \<longleftrightarrow> score (complexity r) \<ge> threshold demo_router))
                 \<and> saved r = (model r = weak_model demo_router))
            \<or> (\<exists>e. route_and_execute failing_world demo_router ''What is the capital of France?'' 150
                      = Inl (e, s')
                    \<and> tokenizer demo_router ''What is the capital of France?'' = Inl e))
           \<and> model_usage demo_router
                (if score (classify_complexity ''What is the capital of France?'') \<ge> threshold demo_router
                 then strong_model demo_router else weak_model demo_router) = Some c
           \<and> model_usage s'
                (if score (classify_complexity ''What is the capital of France?'') \<ge> threshold demo_router
                 then strong_model demo_router else weak_model demo_router) = Some (c + 1)
           \<and> threshold s' = threshold demo_router
           \<and> strong_model s' = strong_model demo_router
           \<and> weak_model s' = weak_model demo_router)
   \<and> score (classify_complexity ''What is the capital of France?'') = 0.55
   \<and> model (fst (projr (route_and_execute failing_world demo_router
                           ''What is the capital of France?'' 150))) = ''gpt-4o-nano''
   \<and> model (fst (projr (route_and_execute failing_world demo_router
                           ''Explain the API?'' 150))) = ''gpt-4o-mini''"
proof -
  have h1: "reachable demo_router" by (rule demo_router_reachable)
  have v1: "score (classify_complexity ''What is the capital of France?'') = 0.55"
    by code_simp
  have v2: "model (fst (projr (route_and_execute failing_world demo_router
                           ''What is the capital of France?'' 150))) = ''gpt-4o-nano''"
    by code_simp
  have v3: "model (fst (projr (route_and_execute failing_world demo_router
                           ''Explain the API?'' 150))) = ''gpt-4o-mini''"
    by code_simp
  from selects_by_threshold [OF h1, of failing_world "''What is the capital of France?''" 150]
    h1 v1 v2 v3
  show ?thesis by blast
qed

lemma try_block_raises:
  "create w m q mt = Raises msg \<Longrightarrow> try_block w s q mt m = Inl (APIError msg)"
  by (simp add: try_block_def)

lemma try_block_unpriced:
  "create w m q mt = Returns resp \<Longrightarrow> costs s m = None \<Longrightarrow> \<exists>e. try_block w s q mt m = Inl e"
  by (simp add: try_block_def Let_def split: list.splits sum.splits)

lemma try_block_usage:
  assumes "create w m q mt = Returns resp" and "choices resp = content # rest"
      and "usage resp = Some u" and "costs s m = Some p"
      and "tokenizer s (q @ system_prompt) = Inr n_in"
      and "(case content of None \<Rightarrow> Inr 0
            | Some c \<Rightarrow> if c \<noteq> [] then tokenizer s c else Inr 0) = Inr n_out"
  shows "\<exists>ex s'. try_block w s q mt m = Inr (ex, s')
           \<and> response_content ex = content
           \<and> input_tokens ex = prompt_tokens u \<and> output_tokens ex = completion_tokens u
           \<and> exec_cost ex = real (prompt_tokens u) * price_input p / 1000
                             + real (completion_tokens u) * price_output p / 1000
           \<and> total_cost s' = total_cost s
                + (real n_in * price_input p / 1000 + real n_out * price_output p / 1000)"
proof -
  from assms(6) have out: "(case content of None \<Rightarrow> Inr 0
            | Some c \<Rightarrow> if c \<noteq> [] then count_tokens s c else Inr 0) = Inr n_out"
    by (cases content) (auto simp: count_tokens_def split: if_splits)
  show ?thesis
    by (simp add: try_block_def Let_def assms(1-5) out count_tokens_def [of s "q @ system_prompt"])
qed

text \<open>
  Claim C4, what the code does. When the chat completion call raises, the \<open>except\<close>
  clause counts the tokens of the query, under no \<open>try\<close>. Where the tokenizer accepts
  the query, \<open>route_and_execute\<close> returns a result with \<open>success = False\<close>, cost 0 and
  no output tokens, the error message in the response, and \<open>total_cost\<close> unchanged.
  Where the tokenizer raises on the query, that exception leaves \<open>route_and_execute\<close>
  and reaches the caller, after the query has been counted.
\<close>

theorem execution_error_outcome:
  assumes "reachable s"
      and "create w (select_model s (score (classify_complexity q))) q mt = Raises msg"
  shows "case tokenizer s q of
           Inr n \<Rightarrow>
             (\<exists>r s'. route_and_execute w s q mt = Inr (r, s')
                \<and> success r = False \<and> cost r = 0
                \<and> tokens_input r = n \<and> tokens_output r = 0 \<and> tokens_total r = n
                \<and> response r = Some (''Error: '' @ msg) \<and> query r = q
                \<and> total_cost s' = total_cost s)
         | Inl e \<Rightarrow>
             (\<exists>s'. route_and_execute w s q mt = Inl (e, s')
                \<and> total_queries s' = total_queries s + 1
                \<and> total_cost s' = total_cost s)"
proof -
  let ?m = "select_model s (score (classify_complexity q))"
  from reachable_selected_counted [OF assms(1)]
  obtain c where c: "model_usage s ?m = Some c"
    by blast
  from update_tracking_fields [OF c]
  obtain s1 where ut: "update_tracking s ?m (level (classify_complexity q)) = Inr s1"
    and tq: "total_queries s1 = total_queries s + 1"
    and tc: "total_cost s1 = total_cost s"
    and tk: "tokenizer s1 = tokenizer s"
    by blast
  have tb: "try_block w s1 q mt ?m = Inl (APIError msg)"
    using assms(2) by (rule try_block_raises)
  show ?thesis
  proof (cases "tokenizer s q")
    case (Inr n)
    then have "tokenizer s1 q = Inr n" by (simp add: tk)
    from route_and_execute_except [OF ut tb this] tc Inr show ?thesis
      by auto
  next
    case (Inl e)
    then have "tokenizer s1 q = Inl e" by (simp add: tk)
    from route_and_execute_handler_raises [OF ut tb this] tq tc Inl show ?thesis
      by simp
  qed
qed

theorem execution_error_outcome_witness:
  "reachable demo_router
   \<and> create failing_world
        (select_model demo_router (score (classify_complexity ''Explain <|endoftext|>'')))
        ''Explain <|endoftext|>'' 150 = Raises ''Connection error.''
   \<and> tokenizer demo_router ''Explain <|endoftext|>''
        = Inl (ValueError ''Encountered text corresponding to disallowed special token'')
   \<and> (\<exists>s'. route_and_execute failing_world demo_router ''Explain <|endoftext|>'' 150
               = Inl (ValueError ''Encountered text corresponding to disallowed special token'', s')
          \<and> total_queries s' = total_queries demo_router + 1
          \<and> total_cost s' = total_cost demo_router)
   \<and> create failing_world
        (select_model demo_router (score (classify_complexity ''Explain the API?'')))
        ''Explain the API?'' 150 = Raises ''Connection error.''
   \<and> tokenizer demo_router ''Explain the API?'' = Inr 16
   \<and> (\<exists>r s'. route_and_execute failing_world demo_router ''Explain the API?'' 150 = Inr (r, s')
          \<and> success r = False \<and> cost r = 0
          \<and> tokens_input r = 16 \<and> tokens_output r = 0 \<and> tokens_total r = 16
          \<and> response r = Some (''Error: '' @ ''Connection error.'')
          \<and> query r = ''Explain the API?''
          \<and> total_cost s' = total_cost demo_router)"
proof -
  have h1: "reachable demo_router" by (rule demo_router_reachable)
  have h2: "create failing_world
        (select_model demo_router (score (classify_complexity ''Explain <|endoftext|>'')))
        ''Explain <|endoftext|>'' 150 = Raises ''Connection error.''"
    by (simp add: failing_world_def)
  have h3: "tokenizer demo_router ''Explain <|endoftext|>''
        = Inl (ValueError ''Encountered text corresponding to disallowed special token'')"
    by code_simp
  have g2: "create failing_world
        (select_model demo_router (score (classify_complexity ''Explain the API?'')))
        ''Explain the API?'' 150 = Raises ''Connection error.''"
    by (simp add: failing_world_def)
  have g3: "tokenizer demo_router ''Explain the API?'' = Inr 16"
    by code_simp
  from execution_error_outcome [OF h1 h2] h3
  have a: "\<exists>s'. route_and_execute failing_world demo_router ''Explain <|endoftext|>'' 150
               = Inl (ValueError ''Encountered text corresponding to disallowed special token'', s')
          \<and> total_queries s' = total_queries demo_router + 1
          \<and> total_cost s' = total_cost demo_router"
    by simp
  from execution_error_outcome [OF h1 g2] g3
  have b: "\<exists>r s'. route_and_execute failing_world demo_router ''Explain the API?'' 150 = Inr (r, s')
          \<and> success r = False \<and> cost r = 0
          \<and> tokens_input r = 16 \<and> tokens_output r = 0 \<and> tokens_total r = 16
          \<and> response r = Some (''Error: '' @ ''Connection error.'')
          \<and> query r = ''Explain the API?''
          \<and> total_cost s' = total_cost demo_router"
    by simp
  from h1 h2 h3 a g2 g3 b show ?thesis by blast
qed

text \<open>
  Claim C1, what the code does. When the completion returns with usage metadata, the
  selected model has a price and the tokenizer accepts the prompt and the answer, the
  result reports the authoritative token counts and the cost computed from them, but
  \<open>total_cost\<close> has grown by the first estimate (the tokenizer's counts): the adjustment
  \<open>self.total_cost - cost + actual_cost\<close> runs after \<open>cost = actual_cost\<close> and so adds
  nothing. The total is the sum of the reported costs only where estimate and
  authoritative cost agree.
\<close>

theorem total_cost_keeps_estimate:
  assumes "reachable s"
      and "create w (select_model s (score (classify_complexity q))) q mt = Returns resp"
      and "choices resp = content # rest"
      and "usage resp = Some u"
      and "costs s (select_model s (score (classify_complexity q))) = Some p"
      and "tokenizer s (q @ system_prompt) = Inr n_in"
      and "(case content of None \<Rightarrow> Inr 0
            | Some c \<Rightarrow> if c \<noteq> [] then tokenizer s c else Inr 0) = Inr n_out"
  shows "\<exists>r s'. route_and_execute w s q mt = Inr (r, s')
           \<and> success r = True
           \<and> tokens_input r = prompt_tokens u \<and> tokens_output r = completion_tokens u
           \<and> cost r = py_round (real (prompt_tokens u) * price_input p / 1000
                                 + real (completion_tokens u) * price_output p / 1000) 6
           \<and> total_cost s' = total_cost s
                + (real n_in * price_input p / 1000 + real n_out * price_output p / 1000)"
proof -
  let ?m = "select_model s (score (classify_complexity q))"
  from reachable_selected_counted [OF assms(1)]
  obtain c where c: "model_usage s ?m = Some c"
    by blast
  from update_tracking_fields [OF c]
  obtain s1 where ut: "update_tracking s ?m (level (classify_complexity q)) = Inr s1"
    and tc: "total_cost s1 = total_cost s" and cs: "costs s1 = costs s"
    and tk: "tokenizer s1 = tokenizer s"
    by blast
  from assms(5) cs have p: "costs s1 ?m = Some p" by simp
  from assms(6) tk have i: "tokenizer s1 (q @ system_prompt) = Inr n_in" by simp
  note assms(7) [folded tk]
  from try_block_usage [OF assms(2) assms(3) assms(4) p i this]
  obtain ex s2 where tb: "try_block w s1 q mt ?m = Inr (ex, s2)"
    and ex: "input_tokens ex = prompt_tokens u" "output_tokens ex = completion_tokens u"
      "exec_cost ex = real (prompt_tokens u) * price_input p / 1000
                             + real (completion_tokens u) * price_output p / 1000"
    and s2: "total_cost s2 = total_cost s1
                + (real n_in * price_input p / 1000 + real n_out * price_output p / 1000)"
    by blast
  from route_and_execute_success [OF ut tb] ex s2 tc show ?thesis
    by auto
qed

theorem total_cost_keeps_estimate_witness:
  "reachable demo_router
   \<and> create answering_world
        (select_model demo_router (score (classify_complexity ''Explain the database algorithm'')))
        ''Explain the database algorithm'' 150 = Returns paris_response
   \<and> choices paris_response = Some ''Paris.'' # []
   \<and> usage paris_response = Some paris_usage
   \<and> costs demo_router
        (select_model demo_router (score (classify_complexity ''Explain the database algorithm'')))
        = Some \<lparr>price_input = 0.00015, price_output = 0.0006\<rparr>
   \<and> tokenizer demo_router (''Explain the database algorithm'' @ system_prompt) = Inr 95
   \<and> (case Some ''Paris.'' of None \<Rightarrow> Inr 0
        | Some c \<Rightarrow> if c \<noteq> [] then tokenizer demo_router c else Inr 0) = Inr 6
   \<and> (\<exists>r s'. route_and_execute answering_world demo_router ''Explain the database algorithm'' 150
                   = Inr (r, s')
           \<and> success r = True
           \<and> tokens_input r = prompt_tokens paris_usage
           \<and> tokens_output r = completion_tokens paris_usage
           \<and> cost r = py_round (real (prompt_tokens paris_usage)
                                    * price_input \<lparr>price_input = 0.00015, price_output = 0.0006\<rparr> / 1000
                                 + real (completion_tokens paris_usage)
                                    * price_output \<lparr>price_input = 0.00015, price_output = 0.0006\<rparr> / 1000) 6
           \<and> total_cost s' = total_cost demo_router
                + (real 95 * price_input \<lparr>price_input = 0.00015, price_output = 0.0006\<rparr> / 1000
                   + real 6 * price_output \<lparr>price_input = 0.00015, price_output = 0.0006\<rparr> / 1000))
   \<and> cost (fst (projr (route_and_execute answering_world demo_router
                          ''Explain the database algorithm'' 150))) = 0.000006
   \<and> total_cost (snd (projr (route_and_execute answering_world demo_router
                                ''Explain the database algorithm'' 150))) = 0.00001785"
proof -
  have h1: "reachable demo_router" by (rule demo_router_reachable)
  have h2: "create answering_world
        (select_model demo_router (score (classify_complexity ''Explain the database algorithm'')))
        ''Explain the database algorithm'' 150 = Returns paris_response"
    by (simp add: answering_world_def)
  have h3: "choices paris_response = Some ''Paris.'' # []"
    by (simp add: paris_response_def)
  have h4: "usage paris_response = Some paris_usage"
    by (simp add: paris_response_def)
  have h5: "costs demo_router
        (select_model demo_router (score (classify_complexity ''Explain the database algorithm'')))
        = Some \<lparr>price_input = 0.00015, price_output = 0.0006\<rparr>"
    by code_simp
  have h6: "tokenizer demo_router (''Explain the database algorithm'' @ system_prompt) = Inr 95"
    by code_simp
  have h7: "(case Some ''Paris.'' of None \<Rightarrow> Inr 0
        | Some c \<Rightarrow> if c \<noteq> [] then tokenizer demo_router c else Inr 0) = Inr 6"
    by code_simp
  have v1: "cost (fst (projr (route_and_execute answering_world demo_router
                          ''Explain the database algorithm'' 150))) = 0.000006"
    by code_simp
  have v2: "total_cost (snd (projr (route_and_execute answering_world demo_router
                                ''Explain the database algorithm'' 150))) = 0.00001785"
    by code_simp
  from total_cost_keeps_estimate [OF h1 h2 h3 h4 h5 h6 h7] h1 h2 h3 h4 h5 h6 h7 v1 v2
  show ?thesis by blast
qed

lemma unpriced_router_init:
  "DirectOpenAIRouteLLM_init no_float demo_tokenizer unpriced_env None = Inr unpriced_router"
  by (simp add: DirectOpenAIRouteLLM_init_def unpriced_env_def demo_env_def unpriced_router_def
        demo_router_def getenv_def Let_def)

text \<open>
  Claim C5 fails as stated: with \<open>ROUTELLM_STRONG_MODEL=gpt-5\<close> the constructor
  returns a router although the price table has no \<open>gpt-5\<close>, and a query routed to it
  comes back as a failed result (the \<open>KeyError\<close> of the cost computation is caught).
\<close>

theorem unpriced_model_not_fatal:
  "DirectOpenAIRouteLLM_init no_float demo_tokenizer unpriced_env None = Inr unpriced_router
   \<and> strong_model unpriced_router = ''gpt-5''
   \<and> costs unpriced_router ''gpt-5'' = None
   \<and> isl (route_and_execute answering_world unpriced_router
             ''Explain the database algorithm'' 150) = False
   \<and> model (fst (projr (route_and_execute answering_world unpriced_router
                           ''Explain the database algorithm'' 150))) = ''gpt-5''
   \<and> success (fst (projr (route_and_execute answering_world unpriced_router
                             ''Explain the database algorithm'' 150))) = False
   \<and> cost (fst (projr (route_and_execute answering_world unpriced_router
                          ''Explain the database algorithm'' 150))) = 0
   \<and> response (fst (projr (route_and_execute answering_world unpriced_router
                          ''Explain the database algorithm'' 150)))
        = Some (''Error: '' @ str (KeyError ''gpt-5''))"
proof -
  have "strong_model unpriced_router = ''gpt-5''"
    by (simp add: unpriced_router_def)
  moreover have "costs unpriced_router ''gpt-5'' = None"
    by code_simp
  moreover have "isl (route_and_execute answering_world unpriced_router
             ''Explain the database algorithm'' 150) = False"
    by code_simp
  moreover have "model (fst (projr (route_and_execute answering_world unpriced_router
                           ''Explain the database algorithm'' 150))) = ''gpt-5''"
    by code_simp
  moreover have "success (fst (projr (route_and_execute answering_world unpriced_router
                             ''Explain the database algorithm'' 150))) = False"
    by code_simp
  moreover have "cost (fst (projr (route_and_execute answering_world unpriced_router
                          ''Explain the database algorithm'' 150))) = 0"
    by code_simp
  moreover have "response (fst (projr (route_and_execute answering_world unpriced_router
                          ''Explain the database algorithm'' 150)))
        = Some (''Error: '' @ str (KeyError ''gpt-5''))"
    by code_simp
  ultimately show ?thesis
    using unpriced_router_init by blast
qed

text \<open>The constructor checks the API key and parses the threshold, nothing else.\<close>

lemma init_succeeds:
  assumes "key_arg = Some k \<or> ((key_arg = None \<or> key_arg = Some []) \<and> OPENAI_API_KEY env = Some k)"
      and "k \<noteq> []"
      and "ROUTELLM_THRESHOLD env = None \<or> (\<exists>t x. ROUTELLM_THRESHOLD env = Some t \<and> parse_float t = Some x)"
  shows "\<exists>s. DirectOpenAIRouteLLM_init parse_float tok env key_arg = Inr s
           \<and> strong_model s = getenv (ROUTELLM_STRONG_MODEL env) ''gpt-4o-mini''
           \<and> weak_model s = getenv (ROUTELLM_WEAK_MODEL env) ''gpt-4o-nano''
           \<and> costs s = map_of price_table"
  using assms
  by (auto simp: DirectOpenAIRouteLLM_init_def Let_def split: option.splits)

text \<open>
  Claim C5 as amended. Construction succeeds whenever an API key is given or set in the
  environment and the threshold is unset or parses, whatever the model names are. In
  every router state that can arise, if the selected model has no entry in the price
  table, the completion call returns and the tokenizer accepts the query,
  \<open>route_and_execute\<close> returns a result with \<open>success = False\<close>, cost 0 and no output
  tokens, and \<open>total_cost\<close> is unchanged.
\<close>

theorem unpriced_model_absorbed:
  "((key_arg = Some k \<or> ((key_arg = None \<or> key_arg = Some []) \<and> OPENAI_API_KEY env = Some k))
      \<and> k \<noteq> []
      \<and> (ROUTELLM_THRESHOLD env = None
           \<or> (\<exists>t x. ROUTELLM_THRESHOLD env = Some t \<and> parse_float t = Some x))
    \<longrightarrow> (\<exists>s. DirectOpenAIRouteLLM_init parse_float tok env key_arg = Inr s
           \<and> strong_model s = getenv (ROUTELLM_STRONG_MODEL env) ''gpt-4o-mini''
           \<and> weak_model s = getenv (ROUTELLM_WEAK_MODEL env) ''gpt-4o-nano''
           \<and> costs s = map_of price_table))
   \<and> (reachable s
       \<and> costs s (select_model s (score (classify_complexity q))) = None
       \<and> create w (select_model s (score (classify_complexity q))) q mt = Returns resp
       \<and> tokenizer s q = Inr n
    \<longrightarrow> (\<exists>r s'. route_and_execute w s q mt = Inr (r, s')
           \<and> success r = False \<and> cost r = 0
           \<and> tokens_input r = n \<and> tokens_output r = 0
           \<and> total_cost s' = total_cost s))"
proof (intro conjI impI)
  assume "(key_arg = Some k \<or> ((key_arg = None \<or> key_arg = Some []) \<and> OPENAI_API_KEY env = Some k))
      \<and> k \<noteq> []
      \<and> (ROUTELLM_THRESHOLD env = None
           \<or> (\<exists>t x. ROUTELLM_THRESHOLD env = Some t \<and> parse_float t = Some x))"
  then show "\<exists>s. DirectOpenAIRouteLLM_init parse_float tok env key_arg = Inr s
           \<and> strong_model s = getenv (ROUTELLM_STRONG_MODEL env) ''gpt-4o-mini''
           \<and> weak_model s = getenv (ROUTELLM_WEAK_MODEL env) ''gpt-4o-nano''
           \<and> costs s = map_of price_table"
    using init_succeeds [of key_arg k env parse_float tok] by blast
next
  let ?m = "select_model s (score (classify_complexity q))"
  assume a: "reachable s \<and> costs s ?m = None \<and> create w ?m q mt = Returns resp
             \<and> tokenizer s q = Inr n"
  from a reachable_selected_counted
  obtain c where c: "model_usage s ?m = Some c"
    by blast
  from update_tracking_fields [OF c]
  obtain s1 where ut: "update_tracking s ?m (level (classify_complexity q)) = Inr s1"
    and tc: "total_cost s1 = total_cost s" and cs: "costs s1 = costs s"
    and tk: "tokenizer s1 = tokenizer s"
    by blast
  from a cs have "costs s1 ?m = None" by simp
  with a try_block_unpriced obtain e where tb: "try_block w s1 q mt ?m = Inl e"
    by blast
  from a tk have "tokenizer s1 q = Inr n" by simp
  from route_and_execute_except [OF ut tb this] tc
  show "\<exists>r s'. route_and_execute w s q mt = Inr (r, s')
           \<and> success r = False \<and> cost r = 0
           \<and> tokens_input r = n \<and> tokens_output r = 0
           \<and> total_cost s' = total_cost s"
    by auto
qed

theorem unpriced_model_absorbed_witness:
  "((None = Some ''sk-demo-key''
       \<or> (((None :: string option) = None \<or> None = Some []) \<and> OPENAI_API_KEY unpriced_env = Some ''sk-demo-key''))
      \<and> ''sk-demo-key'' \<noteq> []
      \<and> (ROUTELLM_THRESHOLD unpriced_env = None
           \<or> (\<exists>t x. ROUTELLM_THRESHOLD unpriced_env = Some t \<and> no_float t = Some x)))
   \<and> (\<exists>s. DirectOpenAIRouteLLM_init no_float demo_tokenizer unpriced_env None = Inr s
           \<and> strong_model s = getenv (ROUTELLM_STRONG_MODEL unpriced_env) ''gpt-4o-mini''
           \<and> weak_model s = getenv (ROUTELLM_WEAK_MODEL unpriced_env) ''gpt-4o-nano''
           \<and> costs s = map_of price_table)
   \<and> reachable unpriced_router
   \<and> costs unpriced_router
        (select_model unpriced_router (score (classify_complexity ''Explain the database algorithm'')))
        = None
   \<and> create answering_world
        (select_model unpriced_router (score (classify_complexity ''Explain the database algorithm'')))
        ''Explain the database algorithm'' 150 = Returns paris_response
   \<and> tokenizer unpriced_router ''Explain the database algorithm'' = Inr 30
   \<and> (\<exists>r s'. route_and_execute answering_world unpriced_router
                  ''Explain the database algorithm'' 150 = Inr (r, s')
           \<and> success r = False \<and> cost r = 0
           \<and> tokens_input r = 30 \<and> tokens_output r = 0
           \<and> total_cost s' = total_cost unpriced_router)"
proof -
  have h1: "(None = Some ''sk-demo-key''
       \<or> (((None :: string option) = None \<or> None = Some []) \<and> OPENAI_API_KEY unpriced_env = Some ''sk-demo-key''))
      \<and> ''sk-demo-key'' \<noteq> []
      \<and> (ROUTELLM_THRESHOLD unpriced_env = None
           \<or> (\<exists>t x. ROUTELLM_THRESHOLD unpriced_env = Some t \<and> no_float t = Some x))"
    by (simp add: unpriced_env_def demo_env_def)
  have h2: "reachable unpriced_router"
    using unpriced_router_init by (rule reachable.init)
  have h3: "costs unpriced_router
        (select_model unpriced_router (score (classify_complexity ''Explain the database algorithm'')))
        = None"
    by code_simp
  have h4: "create answering_world
        (select_model unpriced_router (score (classify_complexity ''Explain the database algorithm'')))
        ''Explain the database algorithm'' 150 = Returns paris_response"
    by (simp add: answering_world_def)
  have h5: "tokenizer unpriced_router ''Explain the database algorithm'' = Inr 30"
    by code_simp
  from unpriced_model_absorbed [of None "''sk-demo-key''" unpriced_env no_float demo_tokenizer
      unpriced_router "''Explain the database algorithm''" answering_world 150 paris_response 30]
    h1 h2 h3 h4 h5
  show ?thesis by blast
qed

section \<open>Properties of the metrics collector\<close>

lemma percentile_index_in_range:
  assumes "0 < n" and "0 \<le> c" and "c < 1"
  shows "nat \<lfloor>real n * c\<rfloor> < n"
proof -
  from assms have "real n * c < real n * 1"
    by (intro mult_strict_left_mono) simp_all
  then have "\<lfloor>real n * c\<rfloor> < int n"
    by (simp add: floor_less_iff)
  moreover from assms(2) have "0 \<le> \<lfloor>real n * c\<rfloor>"
    by simp
  ultimately show ?thesis
    by (simp add: nat_less_iff)
qed

text \<open>
  Claim C6. When the collector holds at least one latency sample (and the clock has
  moved since it was created, so that the throughput can be computed),
  \<open>get_statistics\<close> returns statistics whose \<open>p95\<close> and \<open>p99\<close> are the sorted samples
  at the indices \<open>floor(n * 0.95)\<close> and \<open>floor(n * 0.99)\<close>, both within range; with
  exactly one sample both are that sample.
\<close>

theorem percentiles_by_index:
  assumes "map rec_latency_ms (dd_get [] (metrics mc) ''all'') = xs"
      and "xs \<noteq> []"
      and "t2 \<noteq> created mc"
  shows "\<exists>st. get_statistics t1 t2 mc = Inr (Statistics st)
           \<and> nat \<lfloor>real (length xs) * 0.95\<rfloor> < length xs
           \<and> nat \<lfloor>real (length xs) * 0.99\<rfloor> < length xs
           \<and> p95 (latency st) = sort xs ! nat \<lfloor>real (length xs) * 0.95\<rfloor>
           \<and> p99 (latency st) = sort xs ! nat \<lfloor>real (length xs) * 0.99\<rfloor>
           \<and> (\<forall>x. xs = [x] \<longrightarrow> p95 (latency st) = x \<and> p99 (latency st) = x)"
proof -
  from assms(2) have n: "0 < length xs" by simp
  have i95: "nat \<lfloor>real (length xs) * 0.95\<rfloor> < length xs"
    using n by (rule percentile_index_in_range) simp_all
  have i99: "nat \<lfloor>real (length xs) * 0.99\<rfloor> < length xs"
    using n by (rule percentile_index_in_range) simp_all
  have q95: "py_index (sort xs) (nat \<lfloor>real (length xs) * 0.95\<rfloor>)
               = Inr (sort xs ! nat \<lfloor>real (length xs) * 0.95\<rfloor>)"
    using i95 by (simp add: py_index_def)
  have q99: "py_index (sort xs) (nat \<lfloor>real (length xs) * 0.99\<rfloor>)
               = Inr (sort xs ! nat \<lfloor>real (length xs) * 0.99\<rfloor>)"
    using i99 by (simp add: py_index_def)
  have one: "\<And>x. xs = [x] \<Longrightarrow> sort xs ! nat \<lfloor>real (length xs) * 0.95\<rfloor> = x
                               \<and> sort xs ! nat \<lfloor>real (length xs) * 0.99\<rfloor> = x"
    by simp
  from assms(2) assms(3) q95 q99 i95 i99 one show ?thesis
    unfolding get_statistics_def assms(1) Let_def
    by simp
qed

theorem percentiles_by_index_witness:
  "map rec_latency_ms (dd_get [] (metrics demo_collector) ''all'') = [120, 80, 200]
   \<and> [120, 80, 200] \<noteq> ([] :: real list)
   \<and> 5 \<noteq> created demo_collector
   \<and> (\<exists>st. get_statistics 4 5 demo_collector = Inr (Statistics st)
           \<and> nat \<lfloor>real (length [120, 80, 200 :: real]) * 0.95\<rfloor> < length [120, 80, 200 :: real]
           \<and> nat \<lfloor>real (length [120, 80, 200 :: real]) * 0.99\<rfloor> < length [120, 80, 200 :: real]
           \<and> p95 (latency st) = sort [120, 80, 200] ! nat \<lfloor>real (length [120, 80, 200 :: real]) * 0.95\<rfloor>
           \<and> p99 (latency st) = sort [120, 80, 200] ! nat \<lfloor>real (length [120, 80, 200 :: real]) * 0.99\<rfloor>
           \<and> (\<forall>x. [120, 80, 200] = [x] \<longrightarrow> p95 (latency st) = x \<and> p99 (latency st) = x))
   \<and> p95 (latency (the_statistics (projr (get_statistics 4 5 demo_collector)))) = 200
   \<and> p99 (latency (the_statistics (projr (get_statistics 4 5 demo_collector)))) = 200
   \<and> p95 (latency (the_statistics (projr (get_statistics 4 5
        (record_routing ''2025-01-01T10:00:01'' (MetricsCollector_init 0)
             ''What is Python?'' ''gpt-4o-nano'' 120 0.000001 None))))) = 120
   \<and> p99 (latency (the_statistics (projr (get_statistics 4 5
        (record_routing ''2025-01-01T10:00:01'' (MetricsCollector_init 0)
             ''What is Python?'' ''gpt-4o-nano'' 120 0.000001 None))))) = 120"
proof -
  have h1: "map rec_latency_ms (dd_get [] (metrics demo_collector) ''all'') = [120, 80, 200]"
    by code_simp
  have h2: "[120, 80, 200] \<noteq> ([] :: real list)" by simp
  have h3: "5 \<noteq> created demo_collector" by code_simp
  have v1: "p95 (latency (the_statistics (projr (get_statistics 4 5 demo_collector)))) = 200"
    by code_simp
  have v2: "p99 (latency (the_statistics (projr (get_statistics 4 5 demo_collector)))) = 200"
    by code_simp
  have v3: "p95 (latency (the_statistics (projr (get_statistics 4 5
        (record_routing ''2025-01-01T10:00:01'' (MetricsCollector_init 0)
             ''What is Python?'' ''gpt-4o-nano'' 120 0.000001 None))))) = 120"
    by code_simp
  have v4: "p99 (latency (the_statistics (projr (get_statistics 4 5
        (record_routing ''2025-01-01T10:00:01'' (MetricsCollector_init 0)
             ''What is Python?'' ''gpt-4o-nano'' 120 0.000001 None))))) = 120"
    by code_simp
  from percentiles_by_index [OF h1 h2 h3, of 4] h1 h2 h3 v1 v2 v3 v4
  show ?thesis by blast
qed



section \<open>Properties of the comparison table\<close>

text \<open>
  Claim C8 fails as stated: when both strategies have the same average latency and the
  same total cost (here one failed query each, at cost 0), both rows name RouteLLM as
  the winner; no row reports a tie.
\<close>

theorem tie_goes_to_routellm:
  "generate_comparison_analysis
     [\<lparr>res_method = ''Semantic Router'', res_latency_ms = 250, res_cost = 0,
       res_success = False, res_model_used = ''text-embedding-3-small''\<rparr>]
     [\<lparr>res_method = ''RouteLLM'', res_latency_ms = 250, res_cost = 0,
       res_success = False, res_model_used = ''gpt-4o-nano''\<rparr>]
   = Inr [\<lparr>metric = ''Average Latency'', winner = ''RouteLLM''\<rparr>,
          \<lparr>metric = ''Total Cost'', winner = ''RouteLLM''\<rparr>,
          \<lparr>metric = ''Success Rate'', winner = ''Semantic Router''\<rparr>,
          \<lparr>metric = ''Functionality'', winner = ''RouteLLM''\<rparr>,
          \<lparr>metric = ''Setup Complexity'', winner = ''Semantic Router''\<rparr>,
          \<lparr>metric = ''Scalability'', winner = ''Semantic Router''\<rparr>,
          \<lparr>metric = ''Response Quality'', winner = ''RouteLLM''\<rparr>]
   \<and> ''RouteLLM'' \<noteq> ''Depends on use case''"
  by (simp add: generate_comparison_analysis_def)

text \<open>
  Claim C8 as amended. For two non-empty result lists the table is produced; its
  latency row names the Semantic Router when its average latency is strictly lower and
  RouteLLM otherwise, its cost row names the Semantic Router when its total cost is
  strictly lower and RouteLLM otherwise. Every row names one of the two strategies, so
  a tie on latency or on cost goes to RouteLLM.
\<close>

theorem winner_rule:
  assumes "semantic_results \<noteq> []" and "routellm_results \<noteq> []"
  shows "\<exists>latency_row cost_row rest.
           generate_comparison_analysis semantic_results routellm_results
             = Inr (latency_row # cost_row # rest)
           \<and> metric latency_row = ''Average Latency''
           \<and> winner latency_row =
                (if sum_list (map res_latency_ms semantic_results) / real (length semantic_results)
                      < sum_list (map res_latency_ms routellm_results) / real (length routellm_results)
                 then ''Semantic Router'' else ''RouteLLM'')
           \<and> metric cost_row = ''Total Cost''
           \<and> winner cost_row =
                (if sum_list (map res_cost semantic_results) < sum_list (map res_cost routellm_results)
                 then ''Semantic Router'' else ''RouteLLM'')
           \<and> list_all (\<lambda>r. winner r = ''Semantic Router'' \<or> winner r = ''RouteLLM'')
                (latency_row # cost_row # rest)"
  using assms by (simp add: generate_comparison_analysis_def Let_def)

theorem winner_rule_witness:
  "[\<lparr>res_method = ''Semantic Router'', res_latency_ms = 450, res_cost = 0.00002,
       res_success = True, res_model_used = ''text-embedding-3-small''\<rparr>] \<noteq> []
   \<and> [\<lparr>res_method = ''RouteLLM'', res_latency_ms = 1200, res_cost = 0.000006,
       res_success = True, res_model_used = ''gpt-4o-mini''\<rparr>] \<noteq> []
   \<and> map winner (take 2 (projr (generate_comparison_analysis
        [\<lparr>res_method = ''Semantic Router'', res_latency_ms = 450, res_cost = 0.00002,
          res_success = True, res_model_used = ''text-embedding-3-small''\<rparr>]
        [\<lparr>res_method = ''RouteLLM'', res_latency_ms = 1200, res_cost = 0.000006,
          res_success = True, res_model_used = ''gpt-4o-mini''\<rparr>])))
      = [''Semantic Router'', ''RouteLLM'']"
proof -
  let ?a = "[\<lparr>res_method = ''Semantic Router'', res_latency_ms = 450, res_cost = 0.00002,
       res_success = True, res_model_used = ''text-embedding-3-small''\<rparr>]"
  let ?b = "[\<lparr>res_method = ''RouteLLM'', res_latency_ms = 1200, res_cost = 0.000006,
       res_success = True, res_model_used = ''gpt-4o-mini''\<rparr>]"
  have h1: "?a \<noteq> []" by simp
  have h2: "?b \<noteq> []" by simp
  from winner_rule [OF h1 h2]
  obtain latency_row cost_row rest where
    r: "generate_comparison_analysis ?a ?b = Inr (latency_row # cost_row # rest)"
    and l: "winner latency_row =
                (if sum_list (map res_latency_ms ?a) / real (length ?a)
                      < sum_list (map res_latency_ms ?b) / real (length ?b)
                 then ''Semantic Router'' else ''RouteLLM'')"
    and c: "winner cost_row =
                (if sum_list (map res_cost ?a) < sum_list (map res_cost ?b)
                 then ''Semantic Router'' else ''RouteLLM'')"
    by blast
  from l have "winner latency_row = ''Semantic Router''" by simp
  moreover from c have "winner cost_row = ''RouteLLM''" by simp
  ultimately show ?thesis
    using h1 h2 by (simp only: r) simp
qed

end
